theory Spec2Isabelle
  imports Complex_Main
begin

section \<open>Python values and errors\<close>

text \<open>
  The parsing core of \<^verbatim>\<open>ffprobe/ffprobe.py\<close>: the two line loops of
  \<^verbatim>\<open>FFProbe.__init__\<close>, the constructor of \<^verbatim>\<open>FFStream\<close> and its queries.
  The process launch is outside the model: the two loops receive the decoded lines of
  standard output and standard error as lists of strings.

  A Python \<^verbatim>\<open>str\<close> is a list of 8-bit characters, read as code points below 256;
  the character classes below are Python's for these code points. An exception is a value
  of \<open>py_error\<close>, and a function that can raise returns \<open>py_error + 'a\<close>.
  A float is the exact rational value of an IEEE double (or an infinity, or NaN), and
  every float operation rounds its exact result to the nearest double, a tie to the even
  mantissa (\<open>round_double\<close>); the two zeros are not told apart. The interpreter is CPython
  with its defaults: \<^verbatim>\<open>int\<close> refuses a text of more than 4300 digits.

  A method call \<^verbatim>\<open>s.m()\<close> looks \<^verbatim>\<open>m\<close> up on the object first. The constructor of
  \<^verbatim>\<open>FFStream\<close> stores every key of a block in the \<^verbatim>\<open>__dict__\<close> of the record, so a
  key that is the name of a method hides the method, and the call of the stored value
  raises TypeError (\<open>call_method\<close>).
\<close>

datatype py_error =
    ValueError
  | ZeroDivisionError
  | OverflowError
  | TypeError
  | AttributeError
  | UnboundLocalError
  | FFProbeError string

datatype pyfloat = FFin rat | FInf bool | FNaN

datatype pyval = PStr string | PInt int | PFloat pyfloat | PNone

type_synonym pydict = "string \<rightharpoonup> pyval"

definition dget :: "pydict \<Rightarrow> string \<Rightarrow> pyval \<Rightarrow> pyval" where
  \<comment> \<open>\<^verbatim>\<open>d.get(k, default)\<close>\<close>
  "dget d k dflt = (case d k of None \<Rightarrow> dflt | Some v \<Rightarrow> v)"

section \<open>String operations\<close>

definition is_space :: "char \<Rightarrow> bool" where
  \<comment> \<open>\<^verbatim>\<open>str.isspace\<close>, also the class \<^verbatim>\<open>\s\<close> of \<^verbatim>\<open>re\<close>\<close>
  "is_space c \<longleftrightarrow> c \<in> set [CHR 0x09, CHR 0x0A, CHR 0x0B, CHR 0x0C, CHR 0x0D,
      CHR 0x1C, CHR 0x1D, CHR 0x1E, CHR 0x1F, CHR 0x20, CHR 0x85, CHR 0xA0]"

definition is_digit :: "char \<Rightarrow> bool" where
  "is_digit c \<longleftrightarrow> c \<in> set ''0123456789''"

definition is_word :: "char \<Rightarrow> bool" where
  \<comment> \<open>the class \<^verbatim>\<open>\w\<close> of \<^verbatim>\<open>re\<close> on \<^verbatim>\<open>str\<close>: alphanumeric or underscore\<close>
  "is_word c \<longleftrightarrow> is_digit c \<or> c = CHR ''_''
     \<or> c \<in> set ''abcdefghijklmnopqrstuvwxyz''
     \<or> c \<in> set ''ABCDEFGHIJKLMNOPQRSTUVWXYZ''
     \<or> (let n = (of_char c :: nat) in
          n \<in> {0xAA, 0xB2, 0xB3, 0xB5, 0xB9, 0xBA, 0xBC, 0xBD, 0xBE}
          \<or> (0xC0 \<le> n \<and> n \<noteq> 0xD7 \<and> n \<noteq> 0xF7))"

definition strip :: "string \<Rightarrow> string" where
  \<comment> \<open>\<^verbatim>\<open>s.strip()\<close>\<close>
  "strip s = rev (dropWhile is_space (rev (dropWhile is_space s)))"

definition is_num_space :: "char \<Rightarrow> bool" where
  \<comment> \<open>the blanks \<^verbatim>\<open>int\<close> and \<^verbatim>\<open>float\<close> skip around a number: the six ASCII ones, and
      the spaces beyond ASCII, which the conversion of the text to ASCII turns into
      \<^verbatim>\<open>' '\<close> first. The separators \<^verbatim>\<open>0x1C\<close> to \<^verbatim>\<open>0x1F\<close> are not among them\<close>
  "is_num_space c \<longleftrightarrow> c \<in> set [CHR 0x09, CHR 0x0A, CHR 0x0B, CHR 0x0C, CHR 0x0D,
      CHR 0x20, CHR 0x85, CHR 0xA0]"

definition num_strip :: "string \<Rightarrow> string" where
  "num_strip s = rev (dropWhile is_num_space (rev (dropWhile is_num_space s)))"

fun split_on :: "char \<Rightarrow> string \<Rightarrow> string list" where
  \<comment> \<open>\<^verbatim>\<open>s.split(c)\<close> for a one-character separator: never the empty list\<close>
  "split_on c [] = [[]]"
| "split_on c (x # xs) =
     (let ps = split_on c xs in if x = c then [] # ps else (x # hd ps) # tl ps)"

fun starts_with :: "string \<Rightarrow> string \<Rightarrow> bool" where
  "starts_with [] s = True"
| "starts_with (p # ps) [] = False"
| "starts_with (p # ps) (c # cs) = (p = c \<and> starts_with ps cs)"

fun str_in :: "string \<Rightarrow> string \<Rightarrow> bool" where
  \<comment> \<open>\<^verbatim>\<open>sub in s\<close>\<close>
  "str_in sub [] = (sub = [])"
| "str_in sub (c # cs) = (starts_with sub (c # cs) \<or> str_in sub cs)"

section \<open>Numbers from strings\<close>

definition digit_val :: "char \<Rightarrow> int" where
  "digit_val c = of_char c - 48"

definition dec_val :: "string \<Rightarrow> int" where
  "dec_val ds = foldl (\<lambda>a c. 10 * a + digit_val c) 0 ds"

fun underscores_ok :: "string \<Rightarrow> bool" where
  \<comment> \<open>every underscore stands between two digits; the argument starts after a digit\<close>
  "underscores_ok [] = True"
| "underscores_ok [c] = is_digit c"
| "underscores_ok (c # d # cs) =
     (if c = CHR ''_'' then is_digit d \<and> underscores_ok (d # cs)
      else is_digit c \<and> underscores_ok (d # cs))"

definition digitpart :: "string \<Rightarrow> bool" where
  \<comment> \<open>digits, with single underscores between digits\<close>
  "digitpart s = (case s of [] \<Rightarrow> False | c # cs \<Rightarrow> is_digit c \<and> underscores_ok (c # cs))"

definition digits_of :: "string \<Rightarrow> int" where
  "digits_of s = dec_val (filter (\<lambda>c. c \<noteq> CHR ''_'') s)"

definition split_sign :: "string \<Rightarrow> bool \<times> string" where
  \<comment> \<open>an optional sign; True for minus\<close>
  "split_sign s = (case s of
       c # cs \<Rightarrow> if c = CHR ''-'' then (True, cs) else if c = CHR ''+'' then (False, cs)
                 else (False, s)
     | [] \<Rightarrow> (False, s))"

definition max_str_digits :: nat where
  \<comment> \<open>\<^verbatim>\<open>sys.int_info.default_max_str_digits\<close>\<close>
  "max_str_digits = 4300"

definition py_int :: "string \<Rightarrow> py_error + int" where
  \<comment> \<open>\<^verbatim>\<open>int(s)\<close> on a \<^verbatim>\<open>str\<close>, base 10; more digits than the limit are a ValueError\<close>
  "py_int s =
     (let (neg, u) = split_sign (num_strip s) in
      if digitpart u \<and> length (filter is_digit u) \<le> max_str_digits
      then Inr (if neg then - digits_of u else digits_of u)
      else Inl ValueError)"

section \<open>The frame rate\<close>

datatype num = NInt int | NFloat rat

definition py_round_rat :: "rat \<Rightarrow> int" where
  \<comment> \<open>\<^verbatim>\<open>round(x)\<close> on a float: to the nearest integer, a tie to the even one\<close>
  "py_round_rat q =
     (let f = \<lfloor>q\<rfloor>; d = q - of_int f in
      if d < 1 / 2 then f else if 1 / 2 < d then f + 1 else if even f then f else f + 1)"

definition dbl_limit :: rat where
  \<comment> \<open>magnitudes from here on round to \<open>2 ^ 1024\<close>, beyond the largest double\<close>
  "dbl_limit = 2 ^ 1024 - 2 ^ 970"

function bit_length :: "int \<Rightarrow> nat" where
  \<comment> \<open>\<^verbatim>\<open>n.bit_length()\<close> for \<open>0 \<le> n\<close>: the number of binary digits\<close>
  "bit_length n = (if n \<le> 0 then 0 else Suc (bit_length (n div 2)))"
  by pat_completeness auto

termination bit_length
  by (relation "measure nat") auto

declare bit_length.simps [simp del]

definition pow2 :: "int \<Rightarrow> rat" where
  "pow2 e = (if 0 \<le> e then 2 ^ nat e else 1 / 2 ^ nat (- e))"

definition floor_log2 :: "rat \<Rightarrow> int" where
  \<comment> \<open>for \<open>0 < q\<close>, the exponent \<open>e\<close> with \<open>2 ^ e \<le> q < 2 ^ (e + 1)\<close>: the bit lengths of
      numerator and denominator give it up to one\<close>
  "floor_log2 q =
     (let (a, b) = quotient_of q;
          k = int (bit_length a) - int (bit_length b)
      in if pow2 k \<le> q then k else k - 1)"

definition round_double :: "rat \<Rightarrow> rat" where
  \<comment> \<open>the double nearest to \<open>q\<close>, for \<open>\<bar>q\<bar> < dbl_limit\<close>: a multiple of the unit in the
      last place, which is \<open>2 ^ (e - 52)\<close> and never below \<open>2 ^ - 1074\<close>\<close>
  "round_double q =
     (if q = 0 then 0
      else (let u = pow2 (max (floor_log2 \<bar>q\<bar> - 52) (- 1074))
            in u * of_int (py_round_rat (q / u))))"

definition truediv :: "num \<Rightarrow> int \<Rightarrow> py_error + num" where
  \<comment> \<open>\<^verbatim>\<open>operator.truediv(acc, x)\<close> with \<^verbatim>\<open>x\<close> an \<^verbatim>\<open>int\<close>: the quotient of two
      integers is rounded once; a float is divided by the double of \<^verbatim>\<open>x\<close>\<close>
  "truediv acc x = (case acc of
       NInt a \<Rightarrow>
         if x = 0 then Inl ZeroDivisionError
         else if dbl_limit \<le> \<bar>of_int a / of_int x\<bar> then Inl OverflowError
         else Inr (NFloat (round_double (of_int a / of_int x)))
     | NFloat f \<Rightarrow>
         if dbl_limit \<le> \<bar>of_int x\<bar> then Inl OverflowError
         else if x = 0 then Inl ZeroDivisionError
         else Inr (NFloat (round_double (f / round_double (of_int x)))))"

fun reduce_truediv :: "num \<Rightarrow> string list \<Rightarrow> py_error + num" where
  \<comment> \<open>\<^verbatim>\<open>functools.reduce(operator.truediv, map(int, parts))\<close> after the first item:
      \<^verbatim>\<open>map\<close> is lazy, so each \<^verbatim>\<open>int\<close> runs just before its division\<close>
  "reduce_truediv acc [] = Inr acc"
| "reduce_truediv acc (p # ps) =
     (case py_int p of
        Inl e \<Rightarrow> Inl e
      | Inr x \<Rightarrow> (case truediv acc x of Inl e \<Rightarrow> Inl e | Inr acc' \<Rightarrow> reduce_truediv acc' ps))"

definition py_round :: "num \<Rightarrow> int" where
  "py_round n = (case n of NInt a \<Rightarrow> a | NFloat f \<Rightarrow> py_round_rat f)"

definition reduce_parts :: "string list \<Rightarrow> py_error + num" where
  "reduce_parts parts = (case parts of
       [] \<Rightarrow> Inl TypeError
     | p # ps \<Rightarrow> (case py_int p of Inl e \<Rightarrow> Inl e | Inr a \<Rightarrow> reduce_truediv (NInt a) ps))"

definition framerate_of :: "pyval \<Rightarrow> py_error + pyval" where
  \<comment> \<open>the \<^verbatim>\<open>try\<close> block of \<^verbatim>\<open>FFStream.__init__\<close>, on the value of
      \<^verbatim>\<open>self.__dict__.get('avg_frame_rate', '')\<close>: the new value of \<^verbatim>\<open>framerate\<close>,
      or the exception that neither \<^verbatim>\<open>except\<close> clause catches\<close>
  "framerate_of v = (case v of
       PStr s \<Rightarrow>
         (case reduce_parts (split_on CHR ''/'' s) of
            Inr n \<Rightarrow> Inr (PInt (py_round n))
          | Inl ValueError \<Rightarrow> Inr PNone
          | Inl ZeroDivisionError \<Rightarrow> Inr (PInt 0)
          | Inl e \<Rightarrow> Inl e)
     | _ \<Rightarrow> Inl AttributeError)"

section \<open>Stream records\<close>

text \<open>
  An \<^verbatim>\<open>FFStream\<close> object is its attribute dictionary \<^verbatim>\<open>__dict__\<close> and its identity.
  The class defines no \<^verbatim>\<open>__eq__\<close>, so two objects are equal only when they are the
  same object; \<open>oid\<close> is that identity, the number of stream objects built before this one.
\<close>

record ffstream =
  oid :: nat
  attrs :: pydict

fun FFStream_lines :: "pydict \<Rightarrow> string list \<Rightarrow> py_error + pydict" where
  \<comment> \<open>the loop of \<^verbatim>\<open>FFStream.__init__\<close>: a line that splits into fewer than two
      parts fails to unpack into \<^verbatim>\<open>key, value, *_\<close>\<close>
  "FFStream_lines d [] = Inr d"
| "FFStream_lines d (line # ls) =
     (case split_on CHR ''='' (strip line) of
        key # val # _ \<Rightarrow>
          (let d1 = d(key \<mapsto> PStr val) in
           case framerate_of (dget d1 ''avg_frame_rate'' (PStr '''')) of
             Inl e \<Rightarrow> Inl e
           | Inr fr \<Rightarrow> FFStream_lines (d1(''framerate'' \<mapsto> fr)) ls)
      | _ \<Rightarrow> Inl ValueError)"

definition FFStream :: "nat \<Rightarrow> string list \<Rightarrow> py_error + ffstream" where
  "FFStream i data_lines =
     (case FFStream_lines Map.empty data_lines of
        Inl e \<Rightarrow> Inl e
      | Inr d \<Rightarrow> Inr \<lparr>oid = i, attrs = d\<rparr>)"

definition is_audio :: "ffstream \<Rightarrow> bool" where
  "is_audio s \<longleftrightarrow> dget (attrs s) ''codec_type'' PNone = PStr ''audio''"

definition is_video :: "ffstream \<Rightarrow> bool" where
  "is_video s \<longleftrightarrow> dget (attrs s) ''codec_type'' PNone = PStr ''video''"

definition is_subtitle :: "ffstream \<Rightarrow> bool" where
  "is_subtitle s \<longleftrightarrow> dget (attrs s) ''codec_type'' PNone = PStr ''subtitle''"

definition is_attachment :: "ffstream \<Rightarrow> bool" where
  "is_attachment s \<longleftrightarrow> dget (attrs s) ''codec_type'' PNone = PStr ''attachment''"

definition call_method :: "ffstream \<Rightarrow> string \<Rightarrow> py_error + 'a \<Rightarrow> py_error + 'a" where
  \<comment> \<open>the call \<^verbatim>\<open>s.name()\<close> of a method with the given body: an entry of
      \<^verbatim>\<open>__dict__\<close> under the name of the method hides it, and a string, an integer or
      \<^verbatim>\<open>None\<close> is not callable\<close>
  "call_method s name body = (if attrs s name = None then body else Inl TypeError)"

section \<open>The two line loops of the constructor\<close>

text \<open>
  The state of \<^verbatim>\<open>FFProbe.__init__\<close>: the attributes of \<^verbatim>\<open>self\<close> and the local
  variables of the two loops. \<^verbatim>\<open>data_lines\<close> is unbound in the source until the first
  opening marker and is read only while \<^verbatim>\<open>stream\<close> is true; it starts empty here.
\<close>

record init_state =
  streams :: "ffstream list"
  video :: "ffstream list"
  audio :: "ffstream list"
  subtitle :: "ffstream list"
  attachment :: "ffstream list"
  metadata :: "string \<rightharpoonup> string"
  stream :: bool
  data_lines :: "string list"
  is_metadata :: bool
  stream_metadata_met :: bool

definition init :: init_state where
  "init = \<lparr>streams = [], video = [], audio = [], subtitle = [], attachment = [],
           metadata = Map.empty, stream = False, data_lines = [],
           is_metadata = False, stream_metadata_met = False\<rparr>"

definition block_step :: "init_state \<Rightarrow> string \<Rightarrow> py_error + init_state" where
  \<comment> \<open>the \<^verbatim>\<open>if\<close> chain on the block markers, the same in both loops\<close>
  "block_step st line =
     (if str_in ''[STREAM]'' line then Inr (st\<lparr>stream := True, data_lines := []\<rparr>)
      else if str_in ''[/STREAM]'' line \<and> stream st then
        (case FFStream (length (streams st)) (data_lines st) of
           Inl e \<Rightarrow> Inl e
         | Inr r \<Rightarrow> Inr (st\<lparr>stream := False, streams := streams st @ [r]\<rparr>))
      else if stream st then Inr (st\<lparr>data_lines := data_lines st @ [line]\<rparr>)
      else Inr st)"

fun stdout_loop :: "init_state \<Rightarrow> string list \<Rightarrow> py_error + init_state" where
  "stdout_loop st [] = Inr st"
| "stdout_loop st (line # ls) =
     (case block_step st line of Inl e \<Rightarrow> Inl e | Inr st' \<Rightarrow> stdout_loop st' ls)"

definition newline :: char where
  "newline = CHR 0x0A"

definition kv_match_at :: "string \<Rightarrow> (string \<times> string) option" where
  \<comment> \<open>a match of \<^verbatim>\<open>(\w+)\s*:\s*(.*)$\<close> that starts at the head of the string: the two
      groups. The greedy choice is the only one that can succeed: a shorter word is followed
      by a word character, and fewer blanks after the colon leave the same tail\<close>
  "kv_match_at t =
     (let w = takeWhile is_word t; r1 = dropWhile is_space (dropWhile is_word t) in
      if w = [] then None
      else case r1 of
        [] \<Rightarrow> None
      | c # r3 \<Rightarrow>
          if c \<noteq> CHR '':'' then None
          else (let r4 = dropWhile is_space r3;
                    v = takeWhile (\<lambda>x. x \<noteq> newline) r4;
                    r5 = dropWhile (\<lambda>x. x \<noteq> newline) r4
                in if r5 = [] \<or> r5 = [newline] then Some (w, v) else None))"

fun re_search :: "string \<Rightarrow> (string \<times> string) option" where
  \<comment> \<open>\<^verbatim>\<open>re.search(r'(\w+)\s*:\s*(.*)$', s)\<close>: the leftmost match, None when there is none\<close>
  "re_search [] = None"
| "re_search (c # cs) =
     (case kv_match_at (c # cs) of Some kv \<Rightarrow> Some kv | None \<Rightarrow> re_search cs)"

fun meta_segments :: "(string \<rightharpoonup> string) \<Rightarrow> string list \<Rightarrow> py_error + (string \<rightharpoonup> string)" where
  \<comment> \<open>\<^verbatim>\<open>for s in splits\<close>: \<^verbatim>\<open>m.groups()\<close> on \<^verbatim>\<open>None\<close> is an AttributeError\<close>
  "meta_segments m [] = Inr m"
| "meta_segments m (s # ss) =
     (case re_search s of
        None \<Rightarrow> Inl AttributeError
      | Some (k, v) \<Rightarrow> meta_segments (m(k \<mapsto> strip v)) ss)"

definition meta_step :: "init_state \<Rightarrow> string \<Rightarrow> py_error + init_state" where
  "meta_step st line =
     (if str_in ''Metadata:'' line \<and> \<not> stream_metadata_met st then
        Inr (st\<lparr>is_metadata := True\<rparr>)
      else if str_in ''Stream #'' line then
        Inr (st\<lparr>is_metadata := False, stream_metadata_met := True\<rparr>)
      else if is_metadata st then
        (case meta_segments (metadata st) (split_on CHR '','' line) of
           Inl e \<Rightarrow> Inl e
         | Inr m \<Rightarrow> Inr (st\<lparr>metadata := m\<rparr>))
      else Inr st)"

definition stderr_step :: "init_state \<Rightarrow> string \<Rightarrow> py_error + init_state" where
  "stderr_step st line =
     (case meta_step st line of Inl e \<Rightarrow> Inl e | Inr st' \<Rightarrow> block_step st' line)"

fun stderr_loop :: "init_state \<Rightarrow> string list \<Rightarrow> py_error + init_state" where
  "stderr_loop st [] = Inr st"
| "stderr_loop st (line # ls) =
     (case stderr_step st line of Inl e \<Rightarrow> Inl e | Inr st' \<Rightarrow> stderr_loop st' ls)"

definition classify_stream :: "init_state \<Rightarrow> ffstream \<Rightarrow> py_error + init_state" where
  \<comment> \<open>the \<^verbatim>\<open>if\<close> chain of the last loop: each test is a method call on the record\<close>
  "classify_stream st s =
     (case call_method s ''is_audio'' (Inr (is_audio s)) of
        Inl e \<Rightarrow> Inl e
      | Inr a \<Rightarrow>
          if a then Inr (st\<lparr>audio := audio st @ [s]\<rparr>)
          else (case call_method s ''is_video'' (Inr (is_video s)) of
            Inl e \<Rightarrow> Inl e
          | Inr v \<Rightarrow>
              if v then Inr (st\<lparr>video := video st @ [s]\<rparr>)
              else (case call_method s ''is_subtitle'' (Inr (is_subtitle s)) of
                Inl e \<Rightarrow> Inl e
              | Inr t \<Rightarrow>
                  if t then Inr (st\<lparr>subtitle := subtitle st @ [s]\<rparr>)
                  else (case call_method s ''is_attachment'' (Inr (is_attachment s)) of
                    Inl e \<Rightarrow> Inl e
                  | Inr m \<Rightarrow>
                      if m then Inr (st\<lparr>attachment := attachment st @ [s]\<rparr>)
                      else Inr st))))"

fun classify :: "init_state \<Rightarrow> ffstream list \<Rightarrow> py_error + init_state" where
  \<comment> \<open>\<^verbatim>\<open>for stream in self.streams\<close>\<close>
  "classify st [] = Inr st"
| "classify st (s # ss) =
     (case classify_stream st s of Inl e \<Rightarrow> Inl e | Inr st' \<Rightarrow> classify st' ss)"

definition probe :: "string list \<Rightarrow> string list \<Rightarrow> py_error + init_state" where
  \<comment> \<open>the body of \<^verbatim>\<open>FFProbe.__init__\<close> on the lines of stdout and of stderr\<close>
  "probe out err =
     (case stdout_loop init out of
        Inl e \<Rightarrow> Inl e
      | Inr st1 \<Rightarrow>
          (case stderr_loop st1 err of
             Inl e \<Rightarrow> Inl e
           | Inr st2 \<Rightarrow> classify st2 (streams st2)))"

section \<open>The queries of a stream record\<close>

definition int_of_val :: "pyval \<Rightarrow> py_error + int" where
  \<comment> \<open>\<^verbatim>\<open>int(v)\<close>\<close>
  "int_of_val v = (case v of
       PStr s \<Rightarrow> py_int s
     | PInt i \<Rightarrow> Inr i
     | PFloat (FFin q) \<Rightarrow> Inr (if 0 \<le> q then \<lfloor>q\<rfloor> else \<lceil>q\<rceil>)
     | PFloat (FInf b) \<Rightarrow> Inl OverflowError
     | PFloat FNaN \<Rightarrow> Inl ValueError
     | PNone \<Rightarrow> Inl TypeError)"

fun ci_match :: "string \<Rightarrow> string \<Rightarrow> bool" where
  \<comment> \<open>the string equals the lower-case ASCII pattern up to the case of its letters\<close>
  "ci_match [] [] = True"
| "ci_match (p # ps) (c # cs) =
     ((c = p \<or> (of_char c :: nat) + 32 = of_char p) \<and> ci_match ps cs)"
| "ci_match _ _ = False"

definition is_exp_mark :: "char \<Rightarrow> bool" where
  "is_exp_mark c \<longleftrightarrow> c = CHR ''e'' \<or> c = CHR ''E''"

definition parse_exponent :: "string \<Rightarrow> int option" where
  \<comment> \<open>what follows the mantissa: nothing, or \<^verbatim>\<open>e\<close>, an optional sign and digits\<close>
  "parse_exponent e = (case e of
       [] \<Rightarrow> Some 0
     | _ # ex \<Rightarrow>
         (let (neg, ed) = split_sign ex in
          if digitpart ed then Some (if neg then - digits_of ed else digits_of ed)
          else None))"

definition parse_mantissa :: "string \<Rightarrow> rat option" where
  \<comment> \<open>\<^verbatim>\<open>[digitpart] "." digitpart | digitpart ["."]\<close>\<close>
  "parse_mantissa m =
     (let ip = takeWhile (\<lambda>c. c \<noteq> CHR ''.'') m; r = dropWhile (\<lambda>c. c \<noteq> CHR ''.'') m in
      case r of
        [] \<Rightarrow> if digitpart ip then Some (of_int (digits_of ip)) else None
      | _ # fp \<Rightarrow>
          if ip = [] \<and> digitpart fp \<or> digitpart ip \<and> (fp = [] \<or> digitpart fp) then
            Some (of_int (digits_of ip)
                  + of_int (digits_of fp) / 10 ^ length (filter is_digit fp))
          else None)"

definition parse_decimal :: "string \<Rightarrow> rat option" where
  "parse_decimal u =
     (case parse_mantissa (takeWhile (\<lambda>c. \<not> is_exp_mark c) u) of
        None \<Rightarrow> None
      | Some m \<Rightarrow>
          (case parse_exponent (dropWhile (\<lambda>c. \<not> is_exp_mark c) u) of
             None \<Rightarrow> None
           | Some e \<Rightarrow> Some (if 0 \<le> e then m * 10 ^ nat e else m / 10 ^ nat (- e))))"

definition to_float :: "rat \<Rightarrow> pyfloat" where
  \<comment> \<open>the nearest double; a decimal beyond the doubles reads as an infinity\<close>
  "to_float q = (if dbl_limit \<le> \<bar>q\<bar> then FInf (q < 0) else FFin (round_double q))"

definition py_float :: "string \<Rightarrow> py_error + pyfloat" where
  \<comment> \<open>\<^verbatim>\<open>float(s)\<close> on a \<^verbatim>\<open>str\<close>\<close>
  "py_float s =
     (let (neg, u) = split_sign (num_strip s) in
      if ci_match ''inf'' u \<or> ci_match ''infinity'' u then Inr (FInf neg)
      else if ci_match ''nan'' u then Inr FNaN
      else case parse_decimal u of
             None \<Rightarrow> Inl ValueError
           | Some q \<Rightarrow> Inr (to_float (if neg then - q else q)))"

definition float_of_val :: "pyval \<Rightarrow> py_error + pyfloat" where
  \<comment> \<open>\<^verbatim>\<open>float(v)\<close>\<close>
  "float_of_val v = (case v of
       PStr s \<Rightarrow> py_float s
     | PInt i \<Rightarrow>
         if dbl_limit \<le> \<bar>of_int i\<bar> then Inl OverflowError
         else Inr (FFin (round_double (of_int i)))
     | PFloat f \<Rightarrow> Inr f
     | PNone \<Rightarrow> Inl TypeError)"

definition time_field :: "int \<Rightarrow> string \<Rightarrow> bool" where
  \<comment> \<open>one or two digits, at most the bound: what \<^verbatim>\<open>%H\<close>, \<^verbatim>\<open>%M\<close> and \<^verbatim>\<open>%S\<close> accept
      before a separator that is not a digit\<close>
  "time_field bound ds \<longleftrightarrow> (length ds = 1 \<or> length ds = 2) \<and> dec_val ds \<le> bound"

definition strptime_HMSf :: "string \<Rightarrow> py_error + (int \<times> int \<times> int \<times> int)" where
  \<comment> \<open>\<^verbatim>\<open>datetime.strptime(s, '%H:%M:%S,%f')\<close>: hour, minute, second and microsecond.
      A second of 60 or 61 passes the pattern of \<^verbatim>\<open>%S\<close> and is then refused by the
      \<^verbatim>\<open>datetime\<close> constructor, with the same ValueError\<close>
  "strptime_HMSf s =
     (let hs = takeWhile is_digit s; r1 = dropWhile is_digit s;
          ms = takeWhile is_digit (tl r1); r2 = dropWhile is_digit (tl r1);
          ss = takeWhile is_digit (tl r2); r3 = dropWhile is_digit (tl r2);
          fs = tl r3
      in if r1 \<noteq> [] \<and> hd r1 = CHR '':'' \<and> time_field 23 hs
          \<and> r2 \<noteq> [] \<and> hd r2 = CHR '':'' \<and> time_field 59 ms
          \<and> r3 \<noteq> [] \<and> hd r3 = CHR '','' \<and> time_field 59 ss
          \<and> 1 \<le> length fs \<and> length fs \<le> 6 \<and> list_all is_digit fs
         then Inr (dec_val hs, dec_val ms, dec_val ss,
                   dec_val (fs @ replicate (6 - length fs) CHR ''0''))
         else Inl ValueError)"

definition strptime_val :: "pyval \<Rightarrow> py_error + (int \<times> int \<times> int \<times> int)" where
  "strptime_val v = (case v of PStr s \<Rightarrow> strptime_HMSf s | _ \<Rightarrow> Inl TypeError)"

definition int_or_FFProbeError :: "string \<Rightarrow> pyval \<Rightarrow> py_error + int" where
  \<comment> \<open>\<^verbatim>\<open>try: return int(v)\<close>, \<^verbatim>\<open>except ValueError: raise FFProbeError(msg)\<close>\<close>
  "int_or_FFProbeError msg v = (case int_of_val v of
       Inr n \<Rightarrow> Inr n
     | Inl ValueError \<Rightarrow> Inl (FFProbeError msg)
     | Inl e \<Rightarrow> Inl e)"

definition av_kind :: "ffstream \<Rightarrow> py_error + bool" where
  \<comment> \<open>\<^verbatim>\<open>self.is_video() or self.is_audio()\<close>\<close>
  "av_kind s =
     (case call_method s ''is_video'' (Inr (is_video s)) of
        Inl e \<Rightarrow> Inl e
      | Inr v \<Rightarrow> if v then Inr True else call_method s ''is_audio'' (Inr (is_audio s)))"

definition frames :: "ffstream \<Rightarrow> py_error + int" where
  "frames s = call_method s ''frames''
     (case av_kind s of
        Inl e \<Rightarrow> Inl e
      | Inr av \<Rightarrow>
          if av then
            int_or_FFProbeError ''None integer frame count''
              (dget (attrs s) ''nb_frames'' (PStr []))
          else Inr 0)"

definition fl :: "int \<Rightarrow> rat" where
  \<comment> \<open>\<^verbatim>\<open>float(i)\<close> for an integer within the doubles\<close>
  "fl i = round_double (of_int i)"

definition duration_seconds :: "ffstream \<Rightarrow> py_error + pyval" where
  \<comment> \<open>the last branch assigns \<^verbatim>\<open>duration\<close> only under its \<^verbatim>\<open>if\<close>; otherwise
      \<^verbatim>\<open>return duration\<close> reads an unbound local. The seconds are a float division
      and a float sum, each rounded\<close>
  "duration_seconds s = call_method s ''duration_seconds''
     (case av_kind s of
        Inl e \<Rightarrow> Inl e
      | Inr av \<Rightarrow>
          if av then
            (case float_of_val (dget (attrs s) ''duration'' (PStr [])) of
               Inr f \<Rightarrow> Inr (PFloat f)
             | Inl ValueError \<Rightarrow>
                 (case strptime_val (dget (attrs s) ''TAG:DURATION'' (PStr [])) of
                    Inr (h, m, sec, us) \<Rightarrow>
                      Inr (PFloat (FFin (round_double (fl (sec + m * 60 + h * 3600)
                                           + round_double (fl us / fl 1000000)))))
                  | Inl ValueError \<Rightarrow>
                      (let durValue = dget (attrs s) ''duration'' (PStr []);
                           tDurValue = dget (attrs s) ''TAG:DURATION'' (PStr [])
                       in if durValue = PStr ''N/A'' \<and> tDurValue = PStr ''N/A''
                          then Inr (PInt 0)
                          else Inl UnboundLocalError)
                  | Inl e \<Rightarrow> Inl e)
             | Inl e \<Rightarrow> Inl e)
          else Inr (PFloat (FFin 0)))"

definition aspect_ratio :: "ffstream \<Rightarrow> py_error + pyval" where
  "aspect_ratio s =
     call_method s ''aspect_ratio'' (Inr (dget (attrs s) ''display_aspect_ratio'' PNone))"

definition color_range :: "ffstream \<Rightarrow> py_error + pyval" where
  "color_range s = call_method s ''color_range'' (Inr (dget (attrs s) ''color_range'' PNone))"

definition pixel_format :: "ffstream \<Rightarrow> py_error + pyval" where
  "pixel_format s = call_method s ''pixel_format'' (Inr (dget (attrs s) ''pix_fmt'' PNone))"

definition language :: "(pyval \<Rightarrow> py_error + string) \<Rightarrow> ffstream \<Rightarrow> py_error + pyval \<times> string"
  where
  \<comment> \<open>the one entry of the dictionary returned. The name that the \<^verbatim>\<open>iso639\<close> package gives
      for a code, \<^verbatim>\<open>Lang(strLang).name\<close>, is the parameter \<open>lang_name\<close>\<close>
  "language lang_name s = call_method s ''language''
     (let strLang = dget (attrs s) ''TAG:language'' (PStr ''Und'') in
      if strLang \<noteq> PStr ''und'' \<and> strLang \<noteq> PStr ''Und'' then
        (case lang_name strLang of Inl e \<Rightarrow> Inl e | Inr n \<Rightarrow> Inr (strLang, n))
      else Inr (PStr ''und'', ''Undefined''))"

definition codec :: "ffstream \<Rightarrow> py_error + pyval" where
  "codec s = call_method s ''codec'' (Inr (dget (attrs s) ''codec_name'' PNone))"

definition audio_channels :: "ffstream \<Rightarrow> py_error + int" where
  "audio_channels s = call_method s ''audio_channels''
     (int_or_FFProbeError ''None integer channels'' (dget (attrs s) ''channels'' (PStr [])))"

definition stream_index :: "ffstream \<Rightarrow> py_error + int" where
  "stream_index s = call_method s ''stream_index''
     (int_or_FFProbeError ''None integer index'' (dget (attrs s) ''index'' (PStr [])))"

definition channel_layout :: "ffstream \<Rightarrow> py_error + pyval" where
  "channel_layout s =
     call_method s ''channel_layout'' (Inr (dget (attrs s) ''channel_layout'' PNone))"

definition codec_description :: "ffstream \<Rightarrow> py_error + pyval" where
  "codec_description s =
     call_method s ''codec_description'' (Inr (dget (attrs s) ''codec_long_name'' PNone))"

definition codec_tag :: "ffstream \<Rightarrow> py_error + pyval" where
  "codec_tag s = call_method s ''codec_tag'' (Inr (dget (attrs s) ''codec_tag_string'' PNone))"

definition bit_rate :: "ffstream \<Rightarrow> py_error + int" where
  "bit_rate s = call_method s ''bit_rate''
     (int_or_FFProbeError ''None integer bit_rate'' (dget (attrs s) ''bit_rate'' (PStr [])))"

definition stream_bytes :: "ffstream \<Rightarrow> py_error + int" where
  \<comment> \<open>\<^verbatim>\<open>except ValueError: frame_count = 0\<close>\<close>
  "stream_bytes s = call_method s ''stream_bytes''
     (case int_of_val (dget (attrs s) ''TAG:NUMBER_OF_BYTES'' (PStr [])) of
        Inr n \<Rightarrow> Inr n
      | Inl ValueError \<Rightarrow> Inr 0
      | Inl e \<Rightarrow> Inl e)"

definition stream_title :: "ffstream \<Rightarrow> py_error + pyval" where
  "stream_title s = call_method s ''stream_title''
     (Inr (dget (attrs s) ''TAG:title'' (PStr ''No title has been set'')))"

section \<open>Well-formed block input\<close>

text \<open>
  The shape of an input that is made of \<^verbatim>\<open>[STREAM]\<close> \<dots> \<^verbatim>\<open>[/STREAM]\<close> blocks, in the
  words of the block scanner's contract: a block is an opening line, body lines that hold
  neither marker, and a closing line; between the blocks stand lines outside any block.
  A line with both markers opens a block in the source (the first test wins), so a closing
  line is one with the closing marker only. Lines between blocks may hold a stray closing
  marker before any opening one, and an opening marker whose block never closes.
\<close>

type_synonym block = "string \<times> string list \<times> string"

definition is_opening :: "string \<Rightarrow> bool" where
  "is_opening l \<longleftrightarrow> str_in ''[STREAM]'' l"

definition is_closing :: "string \<Rightarrow> bool" where
  "is_closing l \<longleftrightarrow> str_in ''[/STREAM]'' l \<and> \<not> str_in ''[STREAM]'' l"

definition wf_block :: "block \<Rightarrow> bool" where
  "wf_block blk = (case blk of (opn, body, cls) \<Rightarrow>
     is_opening opn
     \<and> list_all (\<lambda>l. \<not> str_in ''[STREAM]'' l \<and> \<not> str_in ''[/STREAM]'' l) body
     \<and> is_closing cls)"

definition outside_block :: "string list \<Rightarrow> bool" where
  \<comment> \<open>no block closes within these lines: after the first opening line, no closing line\<close>
  "outside_block g \<longleftrightarrow>
     list_all (\<lambda>l. \<not> is_closing l) (dropWhile (\<lambda>l. \<not> is_opening l) g)"

fun layout :: "string list \<Rightarrow> (block \<times> string list) list \<Rightarrow> string list" where
  \<comment> \<open>the input: leading lines, then each block followed by the lines after it\<close>
  "layout g [] = g"
| "layout g (((opn, body, cls), g') # bs) =
     g @ opn # body @ cls # layout g' bs"

section \<open>Evaluation on literals\<close>

lemmas char_class_defs = is_space_def is_num_space_def is_digit_def is_word_def newline_def
  is_exp_mark_def

lemmas number_defs = strip_def num_strip_def split_sign_def digitpart_def digits_of_def dec_val_def
  digit_val_def max_str_digits_def py_int_def dbl_limit_def truediv_def py_round_rat_def
  py_round_def reduce_parts_def framerate_of_def

lemmas float_defs = parse_exponent_def parse_mantissa_def parse_decimal_def to_float_def
  py_float_def float_of_val_def time_field_def strptime_HMSf_def strptime_val_def

lemmas kind_defs = is_audio_def is_video_def is_subtitle_def is_attachment_def dget_def

lemmas loop_defs = block_step_def meta_step_def stderr_step_def classify_stream_def call_method_def
  probe_def init_def FFStream_def kv_match_at_def

lemma dbl_limit_code [code]:
  "dbl_limit = 179769313486231580793728971405303415079934132710037826936173778980444968292764750946649017977587207096330286416692887910946555547851940402630657488671505820681908902000708383676273854845817711531764475730270069855571366959622842914819860834936475292719074168444365510704342711559699508093042880177904174497792"
  by (simp add: dbl_limit_def)

lemma py_int_empty: "py_int [] = Inl ValueError"
  by (simp add: number_defs)

lemma int_of_val_empty: "int_of_val (PStr []) = Inl ValueError"
  by (simp add: int_of_val_def py_int_empty)

lemma py_float_empty: "py_float [] = Inl ValueError"
  by (simp add: float_defs number_defs char_class_defs)


lemma strptime_empty: "strptime_HMSf [] = Inl ValueError"
  by (simp add: float_defs)


lemma py_int_error: "py_int s = Inl e \<Longrightarrow> e = ValueError"
  by (auto simp: py_int_def split: prod.splits if_splits)

section \<open>The block scan\<close>

lemma stdout_loop_append:
  "stdout_loop st (xs @ ys)
     = (case stdout_loop st xs of Inl e \<Rightarrow> Inl e | Inr st' \<Rightarrow> stdout_loop st' ys)"
  by (induction xs arbitrary: st) (auto split: sum.splits)

lemma no_opening_run:
  "\<not> stream st \<Longrightarrow> list_all (\<lambda>l. \<not> is_opening l) ls \<Longrightarrow> stdout_loop st ls = Inr st"
  by (induction ls) (auto simp: block_step_def is_opening_def)

lemma no_closing_run:
  "list_all (\<lambda>l. \<not> is_closing l) ls \<Longrightarrow>
     \<exists>st'. stdout_loop st ls = Inr st' \<and> streams st' = streams st"
proof (induction ls arbitrary: st)
  case Nil
  then show ?case by simp
next
  case (Cons l ls)
  from Cons.prems have "\<exists>st1. block_step st l = Inr st1 \<and> streams st1 = streams st"
    by (auto simp: block_step_def is_closing_def)
  then obtain st1 where 1: "block_step st l = Inr st1" "streams st1 = streams st"
    by blast
  from Cons.IH [of st1] Cons.prems obtain st' where
    "stdout_loop st1 ls = Inr st'" "streams st' = streams st1"
    by auto
  with 1 show ?case by simp
qed

lemma outside_block_run:
  assumes "\<not> stream st" "outside_block g"
  shows "\<exists>st'. stdout_loop st g = Inr st' \<and> streams st' = streams st"
proof -
  let ?P = "\<lambda>l. \<not> is_opening l"
  have "list_all ?P (takeWhile ?P g)"
    by (induction g) auto
  from no_opening_run [OF assms(1) this]
  have 1: "stdout_loop st (takeWhile ?P g) = Inr st" .
  from assms(2) no_closing_run [of "dropWhile ?P g" st] obtain st' where
    2: "stdout_loop st (dropWhile ?P g) = Inr st'" "streams st' = streams st"
    by (auto simp: outside_block_def)
  have "stdout_loop st g = stdout_loop st (takeWhile ?P g @ dropWhile ?P g)"
    by simp
  also have "\<dots> = Inr st'"
    unfolding stdout_loop_append by (simp add: 1 2)
  finally show ?thesis using 2 by blast
qed

lemma body_run:
  "stream st \<Longrightarrow> list_all (\<lambda>l. \<not> str_in ''[STREAM]'' l \<and> \<not> str_in ''[/STREAM]'' l) b \<Longrightarrow>
     stdout_loop st b = Inr (st\<lparr>data_lines := data_lines st @ b\<rparr>)"
proof (induction b arbitrary: st)
  case Nil
  then show ?case by simp
next
  case (Cons l b)
  from Cons.prems have 1: "block_step st l = Inr (st\<lparr>data_lines := data_lines st @ [l]\<rparr>)"
    by (simp add: block_step_def)
  from Cons.prems have "stdout_loop (st\<lparr>data_lines := data_lines st @ [l]\<rparr>) b
      = Inr (st\<lparr>data_lines := data_lines st @ [l]\<rparr>
               \<lparr>data_lines := data_lines (st\<lparr>data_lines := data_lines st @ [l]\<rparr>) @ b\<rparr>)"
    by (intro Cons.IH) simp_all
  with 1 show ?case by simp
qed

lemma block_run:
  assumes "wf_block (opn, body, cls)"
    and "FFStream (length (streams st)) body = Inr r"
  shows "\<exists>st'. stdout_loop st (opn # body @ [cls]) = Inr st'
           \<and> streams st' = streams st @ [r] \<and> \<not> stream st'"
proof -
  let ?s1 = "st\<lparr>stream := True, data_lines := []\<rparr>"
  let ?s2 = "st\<lparr>stream := True, data_lines := body\<rparr>"
  let ?s3 = "st\<lparr>stream := False, data_lines := body, streams := streams st @ [r]\<rparr>"
  from assms(1) have o: "block_step st opn = Inr ?s1"
    by (simp add: wf_block_def is_opening_def block_step_def)
  from assms(1) have "stdout_loop ?s1 body = Inr (?s1\<lparr>data_lines := data_lines ?s1 @ body\<rparr>)"
    by (intro body_run) (simp_all add: wf_block_def)
  then have b: "stdout_loop ?s1 body = Inr ?s2"
    by simp
  from assms have c: "block_step ?s2 cls = Inr ?s3"
    by (simp add: wf_block_def is_closing_def block_step_def)
  have "stdout_loop st (opn # body @ [cls]) = stdout_loop ?s1 (body @ [cls])"
    by (simp add: o)
  also have "\<dots> = stdout_loop ?s2 [cls]"
    by (simp only: stdout_loop_append b sum.case)
  also have "\<dots> = Inr ?s3"
    by (simp add: c)
  finally show ?thesis by simp
qed

lemma layout_run:
  assumes "\<not> stream st" "outside_block g"
    and "\<forall>(blk, g') \<in> set bs. wf_block blk \<and> outside_block g'"
    and "list_all2 (\<lambda>(i, (opn, body, cls), g') r. FFStream i body = Inr r)
           (enumerate (length (streams st)) bs) rs"
  shows "\<exists>st'. stdout_loop st (layout g bs) = Inr st' \<and> streams st' = streams st @ rs"
  using assms
proof (induction bs arbitrary: st g rs)
  case Nil
  with outside_block_run [of st g] show ?case by simp
next
  case (Cons x bs)
  obtain opn body cls g' where x: "x = ((opn, body, cls), g')"
    by (cases x) auto
  from Cons.prems(4) obtain r rs' where rs: "rs = r # rs'"
    and r: "FFStream (length (streams st)) body = Inr r"
    and rest: "list_all2 (\<lambda>(i, (opn, body, cls), g') r. FFStream i body = Inr r)
           (enumerate (Suc (length (streams st))) bs) rs'"
    by (auto simp: x list_all2_Cons1)
  from outside_block_run [OF Cons.prems(1,2)] obtain s1 where
    1: "stdout_loop st g = Inr s1" "streams s1 = streams st"
    by blast
  from Cons.prems(3) have w: "wf_block (opn, body, cls)" "outside_block g'"
    by (simp_all add: x)
  from block_run [OF w(1), of s1 r] r 1 obtain s2 where
    2: "stdout_loop s1 (opn # body @ [cls]) = Inr s2"
      "streams s2 = streams st @ [r]" "\<not> stream s2"
    by auto
  from Cons.prems(3) have "\<forall>(blk, g') \<in> set bs. wf_block blk \<and> outside_block g'"
    by simp
  from Cons.IH [OF 2(3) w(2) this, of rs'] rest 2(2) obtain st' where
    3: "stdout_loop s2 (layout g' bs) = Inr st'" "streams st' = streams s2 @ rs'"
    by auto
  have "layout g (x # bs) = g @ (opn # body @ [cls]) @ layout g' bs"
    by (simp add: x)
  then have "stdout_loop st (layout g (x # bs)) = Inr st'"
    by (simp only: stdout_loop_append 1 2 3 sum.case)
  with 3 2 rs show ?case by simp
qed

text \<open>
  C1. On an input made of well-formed blocks, with any lines outside them, the block scan
  of the first loop yields exactly one stream record per block, in the order of the
  blocks: the record of the \<open>i\<close>-th block is the one the constructor builds from the body of
  that block, and it is the \<open>i\<close>-th element of the full stream list. The lines outside the
  blocks contribute nothing. A block is well formed when the constructor accepts its body
  (the hypothesis on \<open>rs\<close>).
\<close>

theorem one_record_per_block:
  assumes "outside_block g"
    and "\<forall>(blk, g') \<in> set bs. wf_block blk \<and> outside_block g'"
    and "list_all2 (\<lambda>(i, (opn, body, cls), g') r. FFStream i body = Inr r)
           (enumerate 0 bs) rs"
  shows "\<exists>st. stdout_loop init (layout g bs) = Inr st \<and> streams st = rs
           \<and> length (streams st) = length bs"
proof -
  from layout_run [of init g bs rs] assms obtain st where
    "stdout_loop init (layout g bs) = Inr st" "streams st = rs"
    by (auto simp: init_def)
  moreover from assms(3) have "length rs = length bs"
    by (auto dest: list_all2_lengthD)
  ultimately show ?thesis by simp
qed

theorem one_record_per_block_witness:
  "outside_block [''ffprobe version 4'']
   \<and> wf_block (''[STREAM]'', [''codec_type=video''], ''[/STREAM]'')
   \<and> wf_block (''[STREAM]'', [''index=1''], ''[/STREAM]'')
   \<and> (\<exists>st. stdout_loop init
          [''ffprobe version 4'',
           ''[STREAM]'', ''codec_type=video'', ''[/STREAM]'',
           ''stray'', ''[/STREAM]'',
           ''[STREAM]'', ''index=1'', ''[/STREAM]''] = Inr st
        \<and> streams st
           = [\<lparr>oid = 0, attrs = [''codec_type'' \<mapsto> PStr ''video'', ''framerate'' \<mapsto> PNone]\<rparr>,
              \<lparr>oid = 1, attrs = [''index'' \<mapsto> PStr ''1'', ''framerate'' \<mapsto> PNone]\<rparr>]
        \<and> length (streams st) = 2)"
proof -
  let ?b0 = "(''[STREAM]'', [''codec_type=video''], ''[/STREAM]'')"
  let ?b1 = "(''[STREAM]'', [''index=1''], ''[/STREAM]'')"
  let ?r0 = "\<lparr>oid = 0, attrs = [''codec_type'' \<mapsto> PStr ''video'', ''framerate'' \<mapsto> PNone]\<rparr>"
  let ?r1 = "\<lparr>oid = 1, attrs = [''index'' \<mapsto> PStr ''1'', ''framerate'' \<mapsto> PNone]\<rparr>"
  have g: "outside_block [''ffprobe version 4'']" "outside_block [''stray'', ''[/STREAM]'']"
    "outside_block []"
    by (simp_all add: outside_block_def is_opening_def is_closing_def)
  have w: "wf_block ?b0" "wf_block ?b1"
    by (simp_all add: wf_block_def is_opening_def is_closing_def)
  have f: "FFStream 0 [''codec_type=video''] = Inr ?r0" "FFStream 1 [''index=1''] = Inr ?r1"
    by (simp_all add: FFStream_def number_defs char_class_defs dget_def Let_def)
  have 1: "\<forall>(blk, g') \<in> set [(?b0, [''stray'', ''[/STREAM]'']), (?b1, [])].
      wf_block blk \<and> outside_block g'"
    using g w by simp
  have 2: "list_all2 (\<lambda>(i, (opn, body, cls), g') r. FFStream i body = Inr r)
      (enumerate 0 [(?b0, [''stray'', ''[/STREAM]'']), (?b1, [])]) [?r0, ?r1]"
    using f by simp
  have l: "layout [''ffprobe version 4''] [(?b0, [''stray'', ''[/STREAM]'']), (?b1, [])]
      = [''ffprobe version 4'', ''[STREAM]'', ''codec_type=video'', ''[/STREAM]'',
         ''stray'', ''[/STREAM]'', ''[STREAM]'', ''index=1'', ''[/STREAM]'']"
    by simp
  have n: "length [(?b0, [''stray'', ''[/STREAM]'']), (?b1, [] :: string list)] = 2"
    by simp
  note t = one_record_per_block [OF g(1) 1 2, unfolded l n]
  from t g(1) w show ?thesis by blast
qed

text \<open>
  C5, on the source. A line without \<^verbatim>\<open>=\<close> inside a block is not skipped: it splits
  into one part, the unpacking into \<^verbatim>\<open>key, value, *_\<close> raises ValueError when the block
  closes, and the constructor of \<^verbatim>\<open>FFProbe\<close> ends with that error. The input is a stream
  block with a nested side-data section.
\<close>

theorem block_line_without_equals_raises:
  "probe [''[STREAM]\<newline>'', ''index=0\<newline>'', ''[SIDE_DATA]\<newline>'',
          ''[/SIDE_DATA]\<newline>'', ''[/STREAM]\<newline>''] [] = Inl ValueError"
  by (simp add: loop_defs char_class_defs number_defs dget_def Let_def)

section \<open>The frame rate of a record\<close>

lemma split_on_none: "c \<notin> set s \<Longrightarrow> split_on c s = [s]"
  by (induction s) (auto simp: Let_def)

lemma split_on_append: "c \<notin> set n \<Longrightarrow> split_on c (n @ c # d) = n # split_on c d"
  by (induction n) (auto simp: Let_def)

lemma split_on_two:
  "c \<notin> set n \<Longrightarrow> c \<notin> set d \<Longrightarrow> split_on c (n @ [c] @ d) = [n, d]"
  by (simp add: split_on_append split_on_none)

lemma framerate_of_two:
  assumes "CHR ''/'' \<notin> set n" "CHR ''/'' \<notin> set d"
  shows "framerate_of (PStr (n @ CHR ''/'' # d)) =
    (case py_int n of
       Inl e \<Rightarrow> Inr PNone
     | Inr a \<Rightarrow>
        (case py_int d of
           Inl e \<Rightarrow> Inr PNone
         | Inr b \<Rightarrow>
             if b = 0 then Inr (PInt 0)
             else if dbl_limit \<le> \<bar>of_int a / of_int b\<bar> then Inl OverflowError
             else Inr (PInt (py_round_rat (round_double (of_int a / of_int b))))))"
  using split_on_two [OF assms]
  by (auto simp del: abs_divide simp: framerate_of_def reduce_parts_def truediv_def py_round_def
      split: sum.splits dest: py_int_error)

lemma FFStream_lines_framerate:
  "FFStream_lines d ls = Inr d' \<Longrightarrow> ls \<noteq> [] \<Longrightarrow>
     \<exists>v. framerate_of (dget d' ''avg_frame_rate'' (PStr [])) = Inr v
        \<and> d' ''framerate'' = Some v"
proof (induction ls arbitrary: d)
  case Nil
  then show ?case by simp
next
  case (Cons line ls)
  from Cons.prems(1) obtain key val rest fr where
    s: "split_on CHR ''='' (strip line) = key # val # rest"
    and f: "framerate_of (dget (d(key \<mapsto> PStr val)) ''avg_frame_rate'' (PStr [])) = Inr fr"
    and r: "FFStream_lines (d(key \<mapsto> PStr val, ''framerate'' \<mapsto> fr)) ls = Inr d'"
    by (auto simp: Let_def split: list.splits sum.splits)
  show ?case
  proof (cases ls)
    case Nil
    with r have "d' = d(key \<mapsto> PStr val, ''framerate'' \<mapsto> fr)"
      by simp
    with f show ?thesis
      by (simp add: dget_def)
  next
    case (Cons a as)
    with Cons.IH [OF r] show ?thesis by simp
  qed
qed

lemma framerate_of_empty: "framerate_of (PStr []) = Inr PNone"
  by (simp add: framerate_of_def reduce_parts_def py_int_empty)

text \<open>
  C2. The frame rate is stored when the record is built: after a block with at least one
  line, \<^verbatim>\<open>framerate\<close> holds what the \<^verbatim>\<open>try\<close> block computes from the final value of
  \<^verbatim>\<open>avg_frame_rate\<close>, and \<^verbatim>\<open>None\<close> when that key is absent. On a value \<^verbatim>\<open>N/D\<close>: 0 when
  \<^verbatim>\<open>D\<close> is zero, \<^verbatim>\<open>None\<close> when a part is not an integer, and otherwise the quotient,
  rounded to a double by the division and then to the nearest integer, a tie to the even
  one; a quotient beyond the doubles is an OverflowError that no clause catches. So
  \<^verbatim>\<open>30/1\<close> gives 30, \<^verbatim>\<open>0/1\<close> gives 0, \<^verbatim>\<open>30/0\<close> gives 0 and \<^verbatim>\<open>abc/1\<close> gives
  \<^verbatim>\<open>None\<close>. The further values show the sign, the blanks and the underscores that
  \<^verbatim>\<open>int\<close> accepts, the two roundings, and a value with one part or with three.
\<close>

theorem framerate_at_construction:
  "(FFStream i ls = Inr r \<longrightarrow> ls \<noteq> [] \<longrightarrow>
      (\<exists>v. framerate_of (dget (attrs r) ''avg_frame_rate'' (PStr [])) = Inr v
         \<and> attrs r ''framerate'' = Some v))
   \<and> (FFStream i ls = Inr r \<longrightarrow> ls \<noteq> [] \<longrightarrow> attrs r ''avg_frame_rate'' = None \<longrightarrow>
        attrs r ''framerate'' = Some PNone)
   \<and> framerate_of (PStr ''30/1'') = Inr (PInt 30)
   \<and> framerate_of (PStr ''0/1'') = Inr (PInt 0)
   \<and> framerate_of (PStr ''30/0'') = Inr (PInt 0)
   \<and> framerate_of (PStr ''abc/1'') = Inr PNone
   \<and> framerate_of (PStr []) = Inr PNone
   \<and> (CHR ''/'' \<notin> set n \<longrightarrow> CHR ''/'' \<notin> set d \<longrightarrow> py_int n = Inr a \<longrightarrow> py_int d = Inr 0 \<longrightarrow>
        framerate_of (PStr (n @ ''/'' @ d)) = Inr (PInt 0))
   \<and> (CHR ''/'' \<notin> set n \<longrightarrow> CHR ''/'' \<notin> set d \<longrightarrow> py_int n = Inl ValueError \<longrightarrow>
        framerate_of (PStr (n @ ''/'' @ d)) = Inr PNone)
   \<and> (CHR ''/'' \<notin> set n \<longrightarrow> CHR ''/'' \<notin> set d \<longrightarrow> py_int n = Inr a \<longrightarrow>
        py_int d = Inl ValueError \<longrightarrow> framerate_of (PStr (n @ ''/'' @ d)) = Inr PNone)
   \<and> (CHR ''/'' \<notin> set n \<longrightarrow> CHR ''/'' \<notin> set d \<longrightarrow> py_int n = Inr a \<longrightarrow> py_int d = Inr b \<longrightarrow>
        b \<noteq> 0 \<longrightarrow> \<bar>of_int a / of_int b\<bar> < dbl_limit \<longrightarrow>
        framerate_of (PStr (n @ ''/'' @ d))
          = Inr (PInt (py_round_rat (round_double (of_int a / of_int b)))))
   \<and> (CHR ''/'' \<notin> set n \<longrightarrow> CHR ''/'' \<notin> set d \<longrightarrow> py_int n = Inr a \<longrightarrow> py_int d = Inr b \<longrightarrow>
        b \<noteq> 0 \<longrightarrow> dbl_limit \<le> \<bar>of_int a / of_int b\<bar> \<longrightarrow>
        framerate_of (PStr (n @ ''/'' @ d)) = Inl OverflowError)
   \<and> framerate_of (PStr ''30000/1001'') = Inr (PInt 30)
   \<and> framerate_of (PStr ''7/2'') = Inr (PInt 4)
   \<and> framerate_of (PStr ''5/2'') = Inr (PInt 2)
   \<and> framerate_of (PStr ''-7/2'') = Inr (PInt (- 4))
   \<and> framerate_of (PStr ''+1_000/3'') = Inr (PInt 333)
   \<and> framerate_of (PStr '' 30 / 1 '') = Inr (PInt 30)
   \<and> framerate_of (PStr ''1__0/1'') = Inr PNone
   \<and> framerate_of (PStr ''30.0/1'') = Inr PNone
   \<and> framerate_of (PStr ''9007199254740993/1'') = Inr (PInt 9007199254740992)
   \<and> framerate_of (PStr ''25'') = Inr (PInt 25)
   \<and> framerate_of (PStr ''24000/1001/2'') = Inr (PInt 12)"
proof -
  have c: "FFStream i ls = Inr r \<Longrightarrow> ls \<noteq> [] \<Longrightarrow>
      \<exists>v. framerate_of (dget (attrs r) ''avg_frame_rate'' (PStr [])) = Inr v
         \<and> attrs r ''framerate'' = Some v"
    by (auto simp: FFStream_def split: sum.splits dest: FFStream_lines_framerate)
  have a: "FFStream i ls = Inr r \<Longrightarrow> ls \<noteq> [] \<Longrightarrow> attrs r ''avg_frame_rate'' = None \<Longrightarrow>
      attrs r ''framerate'' = Some PNone"
    using c by (auto simp: dget_def framerate_of_empty)
  have e: "framerate_of (PStr ''30/1'') = Inr (PInt 30)"
    "framerate_of (PStr ''0/1'') = Inr (PInt 0)"
    "framerate_of (PStr ''30/0'') = Inr (PInt 0)"
    "framerate_of (PStr ''abc/1'') = Inr PNone"
    by code_simp+
  have f: "framerate_of (PStr ''30000/1001'') = Inr (PInt 30)"
    "framerate_of (PStr ''7/2'') = Inr (PInt 4)"
    "framerate_of (PStr ''5/2'') = Inr (PInt 2)"
    "framerate_of (PStr ''-7/2'') = Inr (PInt (- 4))"
    "framerate_of (PStr ''+1_000/3'') = Inr (PInt 333)"
    "framerate_of (PStr '' 30 / 1 '') = Inr (PInt 30)"
    by code_simp+
  have g: "framerate_of (PStr ''1__0/1'') = Inr PNone"
    "framerate_of (PStr ''30.0/1'') = Inr PNone"
    "framerate_of (PStr ''9007199254740993/1'') = Inr (PInt 9007199254740992)"
    "framerate_of (PStr ''25'') = Inr (PInt 25)"
    "framerate_of (PStr ''24000/1001/2'') = Inr (PInt 12)"
    by code_simp+
  have t: "CHR ''/'' \<notin> set n \<Longrightarrow> CHR ''/'' \<notin> set d \<Longrightarrow> py_int n = Inr a \<Longrightarrow> py_int d = Inr 0 \<Longrightarrow>
      framerate_of (PStr (n @ ''/'' @ d)) = Inr (PInt 0)"
    "CHR ''/'' \<notin> set n \<Longrightarrow> CHR ''/'' \<notin> set d \<Longrightarrow> py_int n = Inl ValueError \<Longrightarrow>
      framerate_of (PStr (n @ ''/'' @ d)) = Inr PNone"
    "CHR ''/'' \<notin> set n \<Longrightarrow> CHR ''/'' \<notin> set d \<Longrightarrow> py_int n = Inr a \<Longrightarrow>
      py_int d = Inl ValueError \<Longrightarrow> framerate_of (PStr (n @ ''/'' @ d)) = Inr PNone"
    "CHR ''/'' \<notin> set n \<Longrightarrow> CHR ''/'' \<notin> set d \<Longrightarrow> py_int n = Inr a \<Longrightarrow> py_int d = Inr b \<Longrightarrow>
      b \<noteq> 0 \<Longrightarrow> \<bar>of_int a / of_int b\<bar> < dbl_limit \<Longrightarrow>
      framerate_of (PStr (n @ ''/'' @ d))
        = Inr (PInt (py_round_rat (round_double (of_int a / of_int b))))"
    "CHR ''/'' \<notin> set n \<Longrightarrow> CHR ''/'' \<notin> set d \<Longrightarrow> py_int n = Inr a \<Longrightarrow> py_int d = Inr b \<Longrightarrow>
      b \<noteq> 0 \<Longrightarrow> dbl_limit \<le> \<bar>of_int a / of_int b\<bar> \<Longrightarrow>
      framerate_of (PStr (n @ ''/'' @ d)) = Inl OverflowError"
    using framerate_of_two [of n d] by (simp_all del: abs_divide)
  from c a e f g t framerate_of_empty show ?thesis by blast
qed

theorem framerate_at_construction_witness:
  "FFStream 0 [''avg_frame_rate=30000/1001'']
     = Inr \<lparr>oid = 0, attrs = [''avg_frame_rate'' \<mapsto> PStr ''30000/1001'',
                              ''framerate'' \<mapsto> PInt 30]\<rparr>
   \<and> FFStream 0 [''codec_type=video'']
     = Inr \<lparr>oid = 0, attrs = [''codec_type'' \<mapsto> PStr ''video'', ''framerate'' \<mapsto> PNone]\<rparr>
   \<and> framerate_of (PStr ''24000/1001'') = Inr (PInt 24)
   \<and> framerate_of (PStr ''25/0'') = Inr (PInt 0)
   \<and> framerate_of (PStr ''x/2'') = Inr PNone
   \<and> framerate_of (PStr ''2/x'') = Inr PNone"
proof -
  let ?r = "\<lparr>oid = 0, attrs = [''avg_frame_rate'' \<mapsto> PStr ''30000/1001'',
                              ''framerate'' \<mapsto> PInt 30]\<rparr>"
  let ?q = "\<lparr>oid = 0, attrs = [''codec_type'' \<mapsto> PStr ''video'', ''framerate'' \<mapsto> PNone]\<rparr>"
  have i: "py_int ''24000'' = Inr 24000" "py_int ''1001'' = Inr 1001" "py_int ''25'' = Inr 25"
    "py_int ''0'' = Inr 0" "py_int ''x'' = Inl ValueError" "py_int ''2'' = Inr 2"
    by code_simp+
  have r: "py_round_rat (round_double (24000 / 1001)) = 24"
    by code_simp
  have l: "\<bar>(24000 :: rat) / 1001\<bar> < dbl_limit"
    by code_simp
  have fr: "framerate_of (PStr ''30000/1001'') = Inr (PInt 30)"
    by code_simp
  have 1: "FFStream 0 [''avg_frame_rate=30000/1001''] = Inr ?r"
    by (simp add: FFStream_def strip_def char_class_defs dget_def Let_def fr)
  have 2: "FFStream 0 [''codec_type=video''] = Inr ?q"
    by (simp add: FFStream_def strip_def char_class_defs dget_def Let_def framerate_of_empty)
  have 3: "framerate_of (PStr ''24000/1001'') = Inr (PInt 24)"
    using framerate_at_construction [of 0 "[''avg_frame_rate=30000/1001'']" ?r
        "''24000''" "''1001''" 24000 1001] i r l
    by simp
  have 4: "framerate_of (PStr ''25/0'') = Inr (PInt 0)"
    using framerate_at_construction [of 0 "[''codec_type=video'']" ?q "''25''" "''0''" 25 0] i
    by simp
  have 5: "framerate_of (PStr ''x/2'') = Inr PNone"
    using framerate_at_construction [of 0 "[''codec_type=video'']" ?q "''x''" "''2''" 0 2] i
    by simp
  have 6: "framerate_of (PStr ''2/x'') = Inr PNone"
    using framerate_at_construction [of 0 "[''codec_type=video'']" ?q "''2''" "''x''" 2 0] i
    by simp
  from 1 2 3 4 5 6 show ?thesis by simp
qed

section \<open>The second loop and the classification\<close>

lemma meta_step_blocks:
  "meta_step st line = Inr st' \<Longrightarrow>
     streams st' = streams st \<and> stream st' = stream st \<and> data_lines st' = data_lines st"
  by (auto simp: meta_step_def split: if_splits sum.splits)

lemma block_step_meta:
  "block_step st line = Inr st' \<Longrightarrow>
     metadata st' = metadata st \<and> is_metadata st' = is_metadata st
     \<and> stream_metadata_met st' = stream_metadata_met st"
  by (auto simp: block_step_def split: if_splits sum.splits)

lemma block_step_cong:
  assumes "streams a = streams b" "stream a = stream b" "data_lines a = data_lines b"
    and "block_step a l = Inr a'"
  shows "\<exists>b'. block_step b l = Inr b' \<and> streams a' = streams b' \<and> stream a' = stream b'
           \<and> data_lines a' = data_lines b'"
  using assms by (auto simp: block_step_def split: if_splits sum.splits)

lemma stderr_loop_blocks:
  assumes "stderr_loop a ls = Inr a'"
    and "streams a = streams b" "stream a = stream b" "data_lines a = data_lines b"
  shows "\<exists>b'. stdout_loop b ls = Inr b' \<and> streams a' = streams b' \<and> stream a' = stream b'
           \<and> data_lines a' = data_lines b'"
  using assms
proof (induction ls arbitrary: a b)
  case Nil
  then show ?case by simp
next
  case (Cons l ls)
  from Cons.prems(1) obtain a1 a2 where m: "meta_step a l = Inr a1"
    and s: "block_step a1 l = Inr a2" and r: "stderr_loop a2 ls = Inr a'"
    by (auto simp: stderr_step_def split: sum.splits)
  from meta_step_blocks [OF m] Cons.prems
  have "streams a1 = streams b" "stream a1 = stream b" "data_lines a1 = data_lines b"
    by simp_all
  from block_step_cong [OF this s] obtain b2 where b: "block_step b l = Inr b2"
    and e: "streams a2 = streams b2" "stream a2 = stream b2" "data_lines a2 = data_lines b2"
    by blast
  from Cons.IH [OF r e] b show ?case by simp
qed

lemma block_step_no_close:
  "\<not> str_in ''[/STREAM]'' l \<Longrightarrow> block_step st l = Inr st' \<Longrightarrow> streams st' = streams st"
  by (auto simp: block_step_def split: if_splits)

lemma stderr_loop_no_close:
  "list_all (\<lambda>l. \<not> str_in ''[/STREAM]'' l) ls \<Longrightarrow> stderr_loop st ls = Inr st' \<Longrightarrow>
     streams st' = streams st"
proof (induction ls arbitrary: st)
  case Nil
  then show ?case by simp
next
  case (Cons l ls)
  from Cons.prems(2) obtain a1 a2 where m: "meta_step st l = Inr a1"
    and s: "block_step a1 l = Inr a2" and r: "stderr_loop a2 ls = Inr st'"
    by (auto simp: stderr_step_def split: sum.splits)
  from Cons.prems(1) have "streams a2 = streams a1"
    using block_step_no_close [OF _ s] by simp
  with meta_step_blocks [OF m] Cons.IH [OF _ r] Cons.prems(1) show ?case by simp
qed

lemma kinds_exclusive:
  "is_audio s \<Longrightarrow> \<not> is_video s \<and> \<not> is_subtitle s \<and> \<not> is_attachment s"
  "is_video s \<Longrightarrow> \<not> is_subtitle s \<and> \<not> is_attachment s"
  "is_subtitle s \<Longrightarrow> \<not> is_attachment s"
  by (auto simp: is_audio_def is_video_def is_subtitle_def is_attachment_def)

lemma classify_stream_lists:
  assumes "classify_stream st s = Inr st'"
  shows "streams st' = streams st \<and> metadata st' = metadata st
    \<and> audio st' = audio st @ filter is_audio [s]
    \<and> video st' = video st @ filter is_video [s]
    \<and> subtitle st' = subtitle st @ filter is_subtitle [s]
    \<and> attachment st' = attachment st @ filter is_attachment [s]"
  using assms kinds_exclusive [of s]
  by (auto simp: classify_stream_def call_method_def split: if_splits)

lemma classify_lists:
  "classify st ss = Inr st' \<Longrightarrow>
     streams st' = streams st \<and> metadata st' = metadata st
     \<and> audio st' = audio st @ filter is_audio ss
     \<and> video st' = video st @ filter is_video ss
     \<and> subtitle st' = subtitle st @ filter is_subtitle ss
     \<and> attachment st' = attachment st @ filter is_attachment ss"
proof (induction ss arbitrary: st)
  case Nil
  then show ?case by simp
next
  case (Cons s ss)
  from Cons.prems obtain st1 where 1: "classify_stream st s = Inr st1"
    and 2: "classify st1 ss = Inr st'"
    by (auto split: sum.splits)
  from classify_stream_lists [OF 1] Cons.IH [OF 2] show ?case
    by simp
qed

lemma block_step_kind_lists:
  "block_step st l = Inr st' \<Longrightarrow>
     video st' = video st \<and> audio st' = audio st \<and> subtitle st' = subtitle st
     \<and> attachment st' = attachment st"
  by (auto simp: block_step_def split: if_splits sum.splits)

lemma meta_step_kind_lists:
  "meta_step st l = Inr st' \<Longrightarrow>
     video st' = video st \<and> audio st' = audio st \<and> subtitle st' = subtitle st
     \<and> attachment st' = attachment st"
  by (auto simp: meta_step_def split: if_splits sum.splits)

lemma stdout_loop_kind_lists:
  "stdout_loop st ls = Inr st' \<Longrightarrow>
     video st' = video st \<and> audio st' = audio st \<and> subtitle st' = subtitle st
     \<and> attachment st' = attachment st"
proof (induction ls arbitrary: st)
  case Nil
  then show ?case by simp
next
  case (Cons l ls)
  then show ?case
    by (auto split: sum.splits dest!: block_step_kind_lists)
qed

lemma stderr_loop_kind_lists:
  "stderr_loop st ls = Inr st' \<Longrightarrow>
     video st' = video st \<and> audio st' = audio st \<and> subtitle st' = subtitle st
     \<and> attachment st' = attachment st"
proof (induction ls arbitrary: st)
  case Nil
  then show ?case by simp
next
  case (Cons l ls)
  then show ?case
    by (auto simp: stderr_step_def split: sum.splits
        dest!: block_step_kind_lists meta_step_kind_lists)
qed

lemma probe_kind_lists:
  assumes "probe out err = Inr p"
  shows "video p = filter is_video (streams p)" "audio p = filter is_audio (streams p)"
    "subtitle p = filter is_subtitle (streams p)"
    "attachment p = filter is_attachment (streams p)"
proof -
  from assms obtain st1 st2 where 1: "stdout_loop init out = Inr st1"
    and 2: "stderr_loop st1 err = Inr st2" and p: "classify st2 (streams st2) = Inr p"
    by (auto simp: probe_def split: sum.splits)
  from stdout_loop_kind_lists [OF 1] stderr_loop_kind_lists [OF 2]
  have "video st2 = []" "audio st2 = []" "subtitle st2 = []" "attachment st2 = []"
    by (simp_all add: init_def)
  with classify_lists [OF p]
  show "video p = filter is_video (streams p)" "audio p = filter is_audio (streams p)"
    "subtitle p = filter is_subtitle (streams p)"
    "attachment p = filter is_attachment (streams p)"
    by simp_all
qed

lemma probe_streams_scan:
  assumes "probe out err = Inr p"
  shows "\<exists>st. stdout_loop init (out @ err) = Inr st \<and> streams p = streams st"
proof -
  from assms obtain st1 st2 where 1: "stdout_loop init out = Inr st1"
    and 2: "stderr_loop st1 err = Inr st2" and p: "classify st2 (streams st2) = Inr p"
    by (auto simp: probe_def split: sum.splits)
  from stderr_loop_blocks [OF 2, of st1] obtain b where
    "stdout_loop st1 err = Inr b" "streams st2 = streams b"
    by auto
  with 1 classify_lists [OF p] show ?thesis
    by (simp add: stdout_loop_append)
qed

text \<open>
  C6, as the source has it. The second loop does not skip the block markers: after the
  metadata tests it runs the same block scan on every line of standard error, from the
  state the first loop left. So the full stream list is the one the block scan yields on
  the lines of standard output followed by those of standard error, and each block that
  closes in the second input adds a stream record, which the classification then files
  by kind. The second input adds no record when none of its lines holds the closing
  marker: then the stream list and the four kind lists are those of the first input.
\<close>

theorem stderr_scan_parses_blocks:
  assumes "probe out err = Inr p"
  shows "(\<exists>st. stdout_loop init (out @ err) = Inr st \<and> streams p = streams st)
    \<and> (list_all (\<lambda>l. \<not> str_in ''[/STREAM]'' l) err \<longrightarrow>
        (\<exists>st1. stdout_loop init out = Inr st1 \<and> streams p = streams st1
           \<and> video p = filter is_video (streams st1)
           \<and> audio p = filter is_audio (streams st1)
           \<and> subtitle p = filter is_subtitle (streams st1)
           \<and> attachment p = filter is_attachment (streams st1)))"
proof -
  from assms obtain st1 st2 where 1: "stdout_loop init out = Inr st1"
    and 2: "stderr_loop st1 err = Inr st2" and p: "classify st2 (streams st2) = Inr p"
    by (auto simp: probe_def split: sum.splits)
  note a = probe_streams_scan [OF assms]
  have "streams p = streams st1" if "list_all (\<lambda>l. \<not> str_in ''[/STREAM]'' l) err"
    using stderr_loop_no_close [OF that 2] classify_lists [OF p] by simp
  with a 1 probe_kind_lists [OF assms] show ?thesis by auto
qed

theorem stderr_scan_parses_blocks_witness:
  "probe [''[STREAM]'', ''codec_type=audio'', ''[/STREAM]'']
         [''Metadata:'', ''title : x'', ''Stream #0'']
     = Inr \<lparr>streams =
              [\<lparr>oid = 0, attrs = [''codec_type'' \<mapsto> PStr ''audio'', ''framerate'' \<mapsto> PNone]\<rparr>],
            video = [],
            audio =
              [\<lparr>oid = 0, attrs = [''codec_type'' \<mapsto> PStr ''audio'', ''framerate'' \<mapsto> PNone]\<rparr>],
            subtitle = [], attachment = [], metadata = [''title'' \<mapsto> ''x''],
            stream = False, data_lines = [''codec_type=audio''],
            is_metadata = False, stream_metadata_met = True\<rparr>
   \<and> (\<exists>st1. stdout_loop init [''[STREAM]'', ''codec_type=audio'', ''[/STREAM]''] = Inr st1
         \<and> streams st1
            = [\<lparr>oid = 0, attrs = [''codec_type'' \<mapsto> PStr ''audio'', ''framerate'' \<mapsto> PNone]\<rparr>])"
proof -
  let ?r0 = "\<lparr>oid = 0, attrs = [''codec_type'' \<mapsto> PStr ''audio'', ''framerate'' \<mapsto> PNone]\<rparr>"
  let ?p = "\<lparr>streams = [?r0], video = [], audio = [?r0], subtitle = [], attachment = [],
      metadata = [''title'' \<mapsto> ''x''], stream = False, data_lines = [''codec_type=audio''],
      is_metadata = False, stream_metadata_met = True\<rparr>"
  have 1: "probe [''[STREAM]'', ''codec_type=audio'', ''[/STREAM]'']
         [''Metadata:'', ''title : x'', ''Stream #0''] = Inr ?p"
    by (simp add: loop_defs char_class_defs number_defs kind_defs strip_def Let_def)
  have 2: "list_all (\<lambda>l. \<not> str_in ''[/STREAM]'' l) [''Metadata:'', ''title : x'', ''Stream #0'']"
    by simp
  from stderr_scan_parses_blocks [OF 1] 2
  have "\<exists>st1. stdout_loop init [''[STREAM]'', ''codec_type=audio'', ''[/STREAM]''] = Inr st1
      \<and> streams ?p = streams st1"
    by blast
  with 1 show ?thesis by auto
qed

text \<open>
  C6, as stated, fails: a block on standard error alone, with no line on standard output,
  puts a record in the full stream list and in the video list.
\<close>

theorem stderr_block_adds_stream:
  "probe [] [''[STREAM]\<newline>'', ''codec_type=video\<newline>'', ''[/STREAM]\<newline>'']
     = Inr \<lparr>streams = [\<lparr>oid = 0, attrs = [''codec_type'' \<mapsto> PStr ''video'', ''framerate'' \<mapsto> PNone]\<rparr>],
            video = [\<lparr>oid = 0, attrs = [''codec_type'' \<mapsto> PStr ''video'', ''framerate'' \<mapsto> PNone]\<rparr>],
            audio = [], subtitle = [], attachment = [], metadata = Map.empty,
            stream = False, data_lines = [''codec_type=video\<newline>''],
            is_metadata = False, stream_metadata_met = False\<rparr>"
  by (simp add: loop_defs char_class_defs number_defs kind_defs Let_def)

lemma FFStream_oid: "FFStream i ls = Inr r \<Longrightarrow> oid r = i"
  by (auto simp: FFStream_def split: sum.splits)

lemma block_step_oids:
  "block_step st l = Inr st' \<Longrightarrow> map oid (streams st) = [0..<length (streams st)] \<Longrightarrow>
     map oid (streams st') = [0..<length (streams st')]"
  by (auto simp: block_step_def split: if_splits sum.splits dest: FFStream_oid)

lemma stdout_loop_oids:
  "stdout_loop st ls = Inr st' \<Longrightarrow> map oid (streams st) = [0..<length (streams st)] \<Longrightarrow>
     map oid (streams st') = [0..<length (streams st')]"
proof (induction ls arbitrary: st)
  case Nil
  then show ?case by simp
next
  case (Cons l ls)
  then show ?case
    by (auto split: sum.splits dest: block_step_oids)
qed

lemma probe_oids:
  assumes "probe out err = Inr p"
  shows "map oid (streams p) = [0..<length (streams p)]"
proof -
  from probe_streams_scan [OF assms] obtain st
    where "stdout_loop init (out @ err) = Inr st" "streams p = streams st"
    by blast
  with stdout_loop_oids [of init "out @ err" st] show ?thesis
    by (simp add: init_def)
qed

lemma probe_distinct:
  assumes "probe out err = Inr p"
  shows "distinct (streams p)"
proof -
  have "distinct (map oid (streams p))"
    by (simp add: probe_oids [OF assms])
  then show ?thesis by (simp add: distinct_map)
qed

lemma distinct_count_once: "distinct xs \<Longrightarrow> x \<in> set xs \<Longrightarrow> count_list xs x = 1"
  by (induction xs) auto

lemma kind_by_codec_type:
  "is_video s \<longleftrightarrow> attrs s ''codec_type'' = Some (PStr ''video'')"
  "is_audio s \<longleftrightarrow> attrs s ''codec_type'' = Some (PStr ''audio'')"
  "is_subtitle s \<longleftrightarrow> attrs s ''codec_type'' = Some (PStr ''subtitle'')"
  "is_attachment s \<longleftrightarrow> attrs s ''codec_type'' = Some (PStr ''attachment'')"
  by (auto simp: kind_defs split: option.splits)

text \<open>
  C3. In the result of the constructor, a record is in the video, audio, subtitle or
  attachment list exactly when it is in the full stream list and its \<^verbatim>\<open>codec_type\<close> is
  that kind name; no record is in two kind lists, nor twice in one; every record of a kind
  list occurs in the full list exactly once; a record whose \<^verbatim>\<open>codec_type\<close> is absent or
  another value is in no kind list. Records are compared as the objects they are, by
  identity.
\<close>

theorem probe_partition:
  assumes "probe out err = Inr p"
  shows "(\<forall>s. s \<in> set (video p) \<longleftrightarrow>
            s \<in> set (streams p) \<and> attrs s ''codec_type'' = Some (PStr ''video''))
    \<and> (\<forall>s. s \<in> set (audio p) \<longleftrightarrow>
            s \<in> set (streams p) \<and> attrs s ''codec_type'' = Some (PStr ''audio''))
    \<and> (\<forall>s. s \<in> set (subtitle p) \<longleftrightarrow>
            s \<in> set (streams p) \<and> attrs s ''codec_type'' = Some (PStr ''subtitle''))
    \<and> (\<forall>s. s \<in> set (attachment p) \<longleftrightarrow>
            s \<in> set (streams p) \<and> attrs s ''codec_type'' = Some (PStr ''attachment''))
    \<and> set (video p) \<inter> set (audio p) = {} \<and> set (video p) \<inter> set (subtitle p) = {}
    \<and> set (video p) \<inter> set (attachment p) = {} \<and> set (audio p) \<inter> set (subtitle p) = {}
    \<and> set (audio p) \<inter> set (attachment p) = {} \<and> set (subtitle p) \<inter> set (attachment p) = {}
    \<and> distinct (video p) \<and> distinct (audio p) \<and> distinct (subtitle p)
    \<and> distinct (attachment p)
    \<and> (\<forall>s \<in> set (video p) \<union> set (audio p) \<union> set (subtitle p) \<union> set (attachment p).
          count_list (streams p) s = 1)
    \<and> (\<forall>s \<in> set (streams p).
          attrs s ''codec_type'' \<notin> {Some (PStr ''video''), Some (PStr ''audio''),
            Some (PStr ''subtitle''), Some (PStr ''attachment'')} \<longrightarrow>
          s \<notin> set (video p) \<union> set (audio p) \<union> set (subtitle p) \<union> set (attachment p))"
proof -
  note k = probe_kind_lists [OF assms]
  note d = probe_distinct [OF assms]
  have once: "count_list (streams p) s = 1" if "s \<in> set (streams p)" for s
    using that d by (rule distinct_count_once [rotated])
  show ?thesis
    unfolding k
    by (auto simp: kind_by_codec_type d once)
qed

theorem probe_partition_witness:
  "probe [''[STREAM]'', ''codec_type=video'', ''[/STREAM]'',
          ''[STREAM]'', ''codec_type=data'', ''[/STREAM]''] []
     = Inr \<lparr>streams =
              [\<lparr>oid = 0, attrs = [''codec_type'' \<mapsto> PStr ''video'', ''framerate'' \<mapsto> PNone]\<rparr>,
               \<lparr>oid = 1, attrs = [''codec_type'' \<mapsto> PStr ''data'', ''framerate'' \<mapsto> PNone]\<rparr>],
            video =
              [\<lparr>oid = 0, attrs = [''codec_type'' \<mapsto> PStr ''video'', ''framerate'' \<mapsto> PNone]\<rparr>],
            audio = [], subtitle = [], attachment = [], metadata = Map.empty,
            stream = False, data_lines = [''codec_type=data''],
            is_metadata = False, stream_metadata_met = False\<rparr>
   \<and> count_list
        [\<lparr>oid = 0, attrs = [''codec_type'' \<mapsto> PStr ''video'', ''framerate'' \<mapsto> PNone]\<rparr>,
         \<lparr>oid = 1, attrs = [''codec_type'' \<mapsto> PStr ''data'', ''framerate'' \<mapsto> PNone]\<rparr>]
        \<lparr>oid = 0, attrs = [''codec_type'' \<mapsto> PStr ''video'', ''framerate'' \<mapsto> PNone]\<rparr> = 1"
proof -
  let ?r0 = "\<lparr>oid = 0, attrs = [''codec_type'' \<mapsto> PStr ''video'', ''framerate'' \<mapsto> PNone]\<rparr>"
  let ?r1 = "\<lparr>oid = 1, attrs = [''codec_type'' \<mapsto> PStr ''data'', ''framerate'' \<mapsto> PNone]\<rparr>"
  let ?p = "\<lparr>streams = [?r0, ?r1], video = [?r0], audio = [], subtitle = [], attachment = [],
      metadata = Map.empty, stream = False, data_lines = [''codec_type=data''],
      is_metadata = False, stream_metadata_met = False\<rparr>"
  have 1: "probe [''[STREAM]'', ''codec_type=video'', ''[/STREAM]'',
          ''[STREAM]'', ''codec_type=data'', ''[/STREAM]''] [] = Inr ?p"
    by (simp add: loop_defs char_class_defs number_defs kind_defs Let_def)
  from probe_partition [OF 1] have "\<forall>s \<in> set (video ?p). count_list (streams ?p) s = 1"
    by blast
  then have "count_list [?r0, ?r1] ?r0 = 1"
    by (simp del: count_list.simps)
  with 1 show ?thesis by blast
qed

section \<open>The metadata section\<close>

text \<open>
  C4, on the source. A segment that the pattern does not match is not skipped:
  \<^verbatim>\<open>re.search\<close> returns \<^verbatim>\<open>None\<close>, \<^verbatim>\<open>m.groups()\<close> raises AttributeError and the
  constructor of \<^verbatim>\<open>FFProbe\<close> ends with that error, so the segment that matched before it
  reaches no caller. The input is a title with a comma in it.
\<close>

theorem metadata_segment_unmatched_raises:
  "probe [] [''Metadata:\<newline>'', ''    title : Hello, world\<newline>''] = Inl AttributeError"
  by (simp add: loop_defs char_class_defs strip_def)

lemma stderr_loop_done:
  "stderr_loop st ls = Inr st' \<Longrightarrow> stream_metadata_met st \<Longrightarrow> \<not> is_metadata st \<Longrightarrow>
     metadata st' = metadata st \<and> stream_metadata_met st' \<and> \<not> is_metadata st'"
proof (induction ls arbitrary: st)
  case Nil
  then show ?case by simp
next
  case (Cons l ls)
  from Cons.prems(1) obtain a1 a2 where m: "meta_step st l = Inr a1"
    and s: "block_step a1 l = Inr a2" and r: "stderr_loop a2 ls = Inr st'"
    by (auto simp: stderr_step_def split: sum.splits)
  from m Cons.prems(2,3)
  have "metadata a1 = metadata st \<and> stream_metadata_met a1 \<and> \<not> is_metadata a1"
    by (auto simp: meta_step_def split: if_splits)
  with block_step_meta [OF s]
  have "metadata a2 = metadata st \<and> stream_metadata_met a2 \<and> \<not> is_metadata a2"
    by simp
  with Cons.IH [OF r] show ?case by simp
qed

text \<open>
  A line that holds \<^verbatim>\<open>Stream #\<close> and reaches the second test of the chain ends the
  metadata section for good: from then on no line changes the metadata mapping, whatever
  it holds, and the section is never entered again. The second test is reached when the
  line does not hold \<^verbatim>\<open>Metadata:\<close>, or when the section has ended before.
\<close>

lemma stream_marker_ends_section:
  assumes "str_in ''Stream #'' line"
    and "\<not> str_in ''Metadata:'' line \<or> stream_metadata_met st"
    and "stderr_step st line = Inr st1"
    and "stderr_loop st1 rest = Inr st2"
  shows "metadata st1 = metadata st \<and> metadata st2 = metadata st
    \<and> \<not> is_metadata st2 \<and> stream_metadata_met st2"
proof -
  from assms(3) obtain a1 where m: "meta_step st line = Inr a1"
    and s: "block_step a1 line = Inr st1"
    by (auto simp: stderr_step_def split: sum.splits)
  from m assms(1,2)
  have "metadata a1 = metadata st \<and> stream_metadata_met a1 \<and> \<not> is_metadata a1"
    by (auto simp: meta_step_def split: if_splits)
  with block_step_meta [OF s]
  have 1: "metadata st1 = metadata st" "stream_metadata_met st1" "\<not> is_metadata st1"
    by simp_all
  from stderr_loop_done [OF assms(4) 1(2,3)] 1 show ?thesis by simp
qed

text \<open>
  C7, on the source. Inside the metadata section, a line that holds \<^verbatim>\<open>Stream #\<close> and
  also \<^verbatim>\<open>Metadata:\<close> does not end the section: the test for \<^verbatim>\<open>Metadata:\<close> stands
  first in the chain and takes the line, so \<^verbatim>\<open>stream_metadata_met\<close> stays false, the
  section stays open and the next line adds a pair to the mapping. The input is a title
  that quotes both markers, followed by one more tag.
\<close>

theorem stream_marker_with_metadata_marker:
  "probe [] [''  Metadata:\<newline>'',
             ''    title           : Metadata: Stream #1\<newline>'',
             ''    encoder         : Lavf58.29.100\<newline>'']
     = Inr \<lparr>streams = [], video = [], audio = [], subtitle = [], attachment = [],
            metadata = [''encoder'' \<mapsto> ''Lavf58.29.100''], stream = False, data_lines = [],
            is_metadata = True, stream_metadata_met = False\<rparr>"
  by (simp add: loop_defs char_class_defs strip_def)

section \<open>Keys that hide a method\<close>

text \<open>
  The constructor stores every key of a block as an attribute of the record, so a key
  with the name of a method takes the place of the method on that record, and the call
  raises TypeError. \<^verbatim>\<open>bit_rate\<close>, \<^verbatim>\<open>color_range\<close>, \<^verbatim>\<open>channel_layout\<close> and
  \<^verbatim>\<open>codec_tag\<close> are keys that the probing tool prints.
\<close>

lemma hidden_method_raises:
  "attrs s ''bit_rate'' \<noteq> None \<Longrightarrow> bit_rate s = Inl TypeError"
  "attrs s ''color_range'' \<noteq> None \<Longrightarrow> color_range s = Inl TypeError"
  "attrs s ''channel_layout'' \<noteq> None \<Longrightarrow> channel_layout s = Inl TypeError"
  "attrs s ''codec_tag'' \<noteq> None \<Longrightarrow> codec_tag s = Inl TypeError"
  "attrs s ''frames'' \<noteq> None \<Longrightarrow> frames s = Inl TypeError"
  "attrs s ''duration_seconds'' \<noteq> None \<Longrightarrow> duration_seconds s = Inl TypeError"
  "attrs s ''audio_channels'' \<noteq> None \<Longrightarrow> audio_channels s = Inl TypeError"
  "attrs s ''stream_index'' \<noteq> None \<Longrightarrow> stream_index s = Inl TypeError"
  "attrs s ''language'' \<noteq> None \<Longrightarrow> language lang_name s = Inl TypeError"
  by (auto simp: call_method_def bit_rate_def color_range_def channel_layout_def codec_tag_def
      frames_def duration_seconds_def audio_channels_def stream_index_def language_def)

lemma hidden_kind_raises:
  "attrs s ''is_video'' \<noteq> None \<Longrightarrow> av_kind s = Inl TypeError"
  "attrs s ''is_video'' = None \<Longrightarrow> \<not> is_video s \<Longrightarrow> attrs s ''is_audio'' \<noteq> None \<Longrightarrow>
     av_kind s = Inl TypeError"
  "attrs s ''is_audio'' \<noteq> None \<Longrightarrow> classify_stream st s = Inl TypeError"
  by (auto simp: call_method_def av_kind_def classify_stream_def)

lemma av_kind_visible:
  "attrs s ''is_video'' = None \<Longrightarrow> attrs s ''is_audio'' = None \<Longrightarrow>
     av_kind s = Inr (is_video s \<or> is_audio s)"
  by (simp add: av_kind_def call_method_def)

lemma bit_rate_of_block:
  "FFStream 0 [''bit_rate=128000'']
     = Inr \<lparr>oid = 0, attrs = [''bit_rate'' \<mapsto> PStr ''128000'', ''framerate'' \<mapsto> PNone]\<rparr>
   \<and> bit_rate \<lparr>oid = 0, attrs = [''bit_rate'' \<mapsto> PStr ''128000'', ''framerate'' \<mapsto> PNone]\<rparr>
       = Inl TypeError"
  by (simp add: FFStream_def strip_def char_class_defs dget_def Let_def framerate_of_empty
      bit_rate_def call_method_def)

lemma kind_key_in_block:
  "probe [''[STREAM]'', ''codec_type=audio'', ''is_audio=1'', ''[/STREAM]''] [] = Inl TypeError"
  by (simp add: loop_defs char_class_defs strip_def dget_def Let_def framerate_of_empty)

section \<open>The queries\<close>







text \<open>
  C10. \<^verbatim>\<open>duration_seconds\<close> is not total on video and audio records: when
  \<^verbatim>\<open>duration\<close> is no float, \<^verbatim>\<open>TAG:DURATION\<close> is not of the form
  \<^verbatim>\<open>%H:%M:%S,%f\<close> and the two raw values are not both the string \<^verbatim>\<open>N/A\<close>, the query
  ends in an error and returns no number. No value is assigned to the result, and
  \<^verbatim>\<open>return duration\<close> raises UnboundLocalError; on a record with a key that takes the
  place of \<^verbatim>\<open>duration_seconds\<close> or of the kind predicate it calls, the error is the
  TypeError of that call. The witness is a video record with neither key.
\<close>

theorem duration_seconds_unassigned:
  assumes "is_video s \<or> is_audio s"
    and "float_of_val (dget (attrs s) ''duration'' (PStr [])) = Inl ValueError"
    and "strptime_val (dget (attrs s) ''TAG:DURATION'' (PStr [])) = Inl ValueError"
    and "dget (attrs s) ''duration'' (PStr []) \<noteq> PStr ''N/A''
         \<or> dget (attrs s) ''TAG:DURATION'' (PStr []) \<noteq> PStr ''N/A''"
  shows "duration_seconds s =
           Inl (if attrs s ''duration_seconds'' = None \<and> attrs s ''is_video'' = None
                   \<and> (is_video s \<or> attrs s ''is_audio'' = None)
                then UnboundLocalError else TypeError)"
  using assms by (auto simp: duration_seconds_def av_kind_def call_method_def)

theorem duration_seconds_unassigned_witness:
  "is_video \<lparr>oid = 0, attrs = [''codec_type'' \<mapsto> PStr ''video'']\<rparr>
   \<and> attrs \<lparr>oid = 0, attrs = [''codec_type'' \<mapsto> PStr ''video'']\<rparr> ''duration'' = None
   \<and> attrs \<lparr>oid = 0, attrs = [''codec_type'' \<mapsto> PStr ''video'']\<rparr> ''TAG:DURATION'' = None
   \<and> duration_seconds \<lparr>oid = 0, attrs = [''codec_type'' \<mapsto> PStr ''video'']\<rparr>
       = Inl UnboundLocalError"
  using duration_seconds_unassigned [of "\<lparr>oid = 0, attrs = [''codec_type'' \<mapsto> PStr ''video'']\<rparr>"]
  by (simp add: kind_defs float_of_val_def strptime_val_def py_float_empty strptime_empty)

text \<open>
  C9, as the source has it. The integer queries pass the default \<^verbatim>\<open>''\<close> to \<^verbatim>\<open>int\<close>
  and turn its ValueError into FFProbeError, so \<^verbatim>\<open>bit_rate\<close>, \<^verbatim>\<open>audio_channels\<close>,
  \<^verbatim>\<open>stream_index\<close> and, on a video or audio record, \<^verbatim>\<open>frames\<close> raise FFProbeError on a
  missing field exactly as on a field that is present and not a number;
  \<^verbatim>\<open>audio_channels\<close>, \<^verbatim>\<open>stream_index\<close> and \<^verbatim>\<open>frames\<close> return the integer of a field
  that is one. A missing field resolves to a default in these queries: \<^verbatim>\<open>None\<close> for
  \<^verbatim>\<open>aspect_ratio\<close>, \<^verbatim>\<open>color_range\<close>, \<^verbatim>\<open>pixel_format\<close>, \<^verbatim>\<open>codec\<close>,
  \<^verbatim>\<open>codec_description\<close>, \<^verbatim>\<open>codec_tag\<close> and \<^verbatim>\<open>channel_layout\<close>, the undefined
  language for \<^verbatim>\<open>language\<close>, the default text for \<^verbatim>\<open>stream_title\<close>, 0 for
  \<^verbatim>\<open>stream_bytes\<close>, and 0 for \<^verbatim>\<open>frames\<close> on a record that is neither video nor audio.
  Each statement is for a record with no key that takes the place of the method called.
\<close>

theorem missing_field_policy:
  "(attrs s ''bit_rate'' = None \<longrightarrow> bit_rate s = Inl (FFProbeError ''None integer bit_rate''))
   \<and> (attrs s ''audio_channels'' = None \<longrightarrow> attrs s ''channels'' = None \<longrightarrow>
        audio_channels s = Inl (FFProbeError ''None integer channels''))
   \<and> (attrs s ''stream_index'' = None \<longrightarrow> attrs s ''index'' = None \<longrightarrow>
        stream_index s = Inl (FFProbeError ''None integer index''))
   \<and> (attrs s ''frames'' = None \<longrightarrow> attrs s ''is_video'' = None \<longrightarrow> attrs s ''is_audio'' = None \<longrightarrow>
        is_video s \<or> is_audio s \<longrightarrow> attrs s ''nb_frames'' = None \<longrightarrow>
        frames s = Inl (FFProbeError ''None integer frame count''))
   \<and> (attrs s ''audio_channels'' = None \<longrightarrow> attrs s ''channels'' = Some (PStr v) \<longrightarrow>
        audio_channels s = (case py_int v of Inr n \<Rightarrow> Inr n
                            | Inl e \<Rightarrow> Inl (FFProbeError ''None integer channels'')))
   \<and> (attrs s ''stream_index'' = None \<longrightarrow> attrs s ''index'' = Some (PStr v) \<longrightarrow>
        stream_index s = (case py_int v of Inr n \<Rightarrow> Inr n
                          | Inl e \<Rightarrow> Inl (FFProbeError ''None integer index'')))
   \<and> (attrs s ''frames'' = None \<longrightarrow> attrs s ''is_video'' = None \<longrightarrow> attrs s ''is_audio'' = None \<longrightarrow>
        is_video s \<or> is_audio s \<longrightarrow> attrs s ''nb_frames'' = Some (PStr v) \<longrightarrow>
        frames s = (case py_int v of Inr n \<Rightarrow> Inr n
                    | Inl e \<Rightarrow> Inl (FFProbeError ''None integer frame count'')))
   \<and> (attrs s ''frames'' = None \<longrightarrow> attrs s ''is_video'' = None \<longrightarrow> attrs s ''is_audio'' = None \<longrightarrow>
        \<not> is_video s \<longrightarrow> \<not> is_audio s \<longrightarrow> frames s = Inr 0)
   \<and> (attrs s ''stream_bytes'' = None \<longrightarrow> attrs s ''TAG:NUMBER_OF_BYTES'' = None \<longrightarrow>
        stream_bytes s = Inr 0)
   \<and> (attrs s ''stream_title'' = None \<longrightarrow> attrs s ''TAG:title'' = None \<longrightarrow>
        stream_title s = Inr (PStr ''No title has been set''))
   \<and> (attrs s ''aspect_ratio'' = None \<longrightarrow> attrs s ''display_aspect_ratio'' = None \<longrightarrow>
        aspect_ratio s = Inr PNone)
   \<and> (attrs s ''color_range'' = None \<longrightarrow> color_range s = Inr PNone)
   \<and> (attrs s ''pixel_format'' = None \<longrightarrow> attrs s ''pix_fmt'' = None \<longrightarrow>
        pixel_format s = Inr PNone)
   \<and> (attrs s ''codec'' = None \<longrightarrow> attrs s ''codec_name'' = None \<longrightarrow> codec s = Inr PNone)
   \<and> (attrs s ''codec_description'' = None \<longrightarrow> attrs s ''codec_long_name'' = None \<longrightarrow>
        codec_description s = Inr PNone)
   \<and> (attrs s ''codec_tag'' = None \<longrightarrow> attrs s ''codec_tag_string'' = None \<longrightarrow>
        codec_tag s = Inr PNone)
   \<and> (attrs s ''channel_layout'' = None \<longrightarrow> channel_layout s = Inr PNone)
   \<and> (attrs s ''language'' = None \<longrightarrow> attrs s ''TAG:language'' = None \<longrightarrow>
        language lang_name s = Inr (PStr ''und'', ''Undefined''))"
proof -
  have e: "py_int v = Inl e \<Longrightarrow> e = ValueError" for e
    by (rule py_int_error)
  have i: "int_or_FFProbeError msg (PStr v)
      = (case py_int v of Inr n \<Rightarrow> Inr n | Inl e \<Rightarrow> Inl (FFProbeError msg))" for msg
    using e by (auto simp: int_or_FFProbeError_def int_of_val_def split: sum.splits)
  have m: "int_or_FFProbeError msg (PStr []) = Inl (FFProbeError msg)" for msg
    by (simp add: int_or_FFProbeError_def int_of_val_empty)
  show ?thesis
    by (simp add: bit_rate_def audio_channels_def stream_index_def frames_def stream_bytes_def
        stream_title_def aspect_ratio_def color_range_def pixel_format_def codec_def
        codec_description_def codec_tag_def channel_layout_def language_def call_method_def
        av_kind_visible dget_def i m int_of_val_empty)
qed

theorem missing_field_policy_witness:
  "bit_rate \<lparr>oid = 0, attrs = [''codec_type'' \<mapsto> PStr ''video'', ''nb_frames'' \<mapsto> PStr ''250'']\<rparr>
     = Inl (FFProbeError ''None integer bit_rate'')
   \<and> frames \<lparr>oid = 0, attrs = [''codec_type'' \<mapsto> PStr ''video'', ''nb_frames'' \<mapsto> PStr ''250'']\<rparr>
     = Inr 250
   \<and> stream_bytes \<lparr>oid = 0, attrs = [''codec_type'' \<mapsto> PStr ''video'', ''nb_frames'' \<mapsto> PStr ''250'']\<rparr>
     = Inr 0
   \<and> codec \<lparr>oid = 0, attrs = [''codec_type'' \<mapsto> PStr ''video'', ''nb_frames'' \<mapsto> PStr ''250'']\<rparr>
     = Inr PNone"
proof -
  have p: "py_int ''250'' = Inr 250"
    by code_simp
  show ?thesis
    using missing_field_policy [of "\<lparr>oid = 0, attrs = [''codec_type'' \<mapsto> PStr ''video'',
      ''nb_frames'' \<mapsto> PStr ''250'']\<rparr>" "''250''"]
    by (simp add: kind_defs p)
qed

text \<open>
  C9, as stated, fails: on a video record that has none of the three fields, \<^verbatim>\<open>frames\<close>,
  \<^verbatim>\<open>bit_rate\<close> and \<^verbatim>\<open>audio_channels\<close> each raise FFProbeError.
\<close>

theorem missing_field_raises:
  "attrs \<lparr>oid = 0, attrs = [''codec_type'' \<mapsto> PStr ''video'']\<rparr> ''nb_frames'' = None
   \<and> frames \<lparr>oid = 0, attrs = [''codec_type'' \<mapsto> PStr ''video'']\<rparr>
       = Inl (FFProbeError ''None integer frame count'')
   \<and> attrs \<lparr>oid = 0, attrs = [''codec_type'' \<mapsto> PStr ''video'']\<rparr> ''bit_rate'' = None
   \<and> bit_rate \<lparr>oid = 0, attrs = [''codec_type'' \<mapsto> PStr ''video'']\<rparr>
       = Inl (FFProbeError ''None integer bit_rate'')
   \<and> attrs \<lparr>oid = 0, attrs = [''codec_type'' \<mapsto> PStr ''video'']\<rparr> ''channels'' = None
   \<and> audio_channels \<lparr>oid = 0, attrs = [''codec_type'' \<mapsto> PStr ''video'']\<rparr>
       = Inl (FFProbeError ''None integer channels'')"
  by (simp add: frames_def bit_rate_def audio_channels_def int_or_FFProbeError_def
      int_of_val_empty kind_defs call_method_def av_kind_def)

end
